theory Spec2Isabelle
  imports Main "HOL-Library.Log_Nat" "HOL-Library.AList"
begin

section \<open>Python strings\<close>

text \<open>
  A Python \<open>str\<close> is a sequence of code points. The strings the bot inspects character
  by character (the percent string of a progress hook, the text of a message, callback
  data) are carried as \<^typ>\<open>string\<close>, a \<^typ>\<open>char\<close> being a code point below 256.
  Texts the bot only builds and hands on (the rendered bar, the error text, titles and
  exception messages) are lists of \<open>uchar\<close>, which adds the code points from 256 on,
  among them the two squares of the progress bar.
\<close>

datatype uchar = Ch char | U nat

type_synonym pystr = "uchar list"

definition ustr :: "string \<Rightarrow> pystr" where
  "ustr s = map Ch s"

definition blue_square :: uchar where
  "blue_square = U 0x1F7E6"

definition white_square :: uchar where
  "white_square = U 0x2B1C"

definition cross_mark :: uchar where
  "cross_mark = U 0x274C"

definition inbox_tray :: uchar where
  "inbox_tray = U 0x1F4E5"

text \<open>\<open>s.strip(chars)\<close>: drop the characters of \<open>chars\<close> from both ends.\<close>

definition strip_chars :: "(char \<Rightarrow> bool) \<Rightarrow> string \<Rightarrow> string" where
  "strip_chars p s = rev (dropWhile p (rev (dropWhile p s)))"

text \<open>\<open>s.split(sep)[0]\<close> for a one-character separator: the text before its first occurrence.\<close>

definition split_head :: "char \<Rightarrow> string \<Rightarrow> string" where
  "split_head sep s = takeWhile (\<lambda>c. c \<noteq> sep) s"

text \<open>\<open>s.split(sep)[1]\<close> for a string that contains the separator: the text between its
  first and its second occurrence.\<close>

definition split_second :: "char \<Rightarrow> string \<Rightarrow> string" where
  "split_second sep s = split_head sep (drop 1 (dropWhile (\<lambda>c. c \<noteq> sep) s))"

text \<open>Whitespace of \<open>str.strip()\<close> and \<open>str.isspace\<close>, on code points below 256.\<close>

definition unicode_space :: "char \<Rightarrow> bool" where
  "unicode_space c = (let n = (of_char c :: nat) in
     (9 \<le> n \<and> n \<le> 13) \<or> (28 \<le> n \<and> n \<le> 32) \<or> n = 133 \<or> n = 160)"

definition py_strip :: "string \<Rightarrow> string" where
  "py_strip s = strip_chars unicode_space s"

section \<open>The builtin \<open>float\<close>, \<open>/\<close> and \<open>int\<close>\<close>

text \<open>
  A Python float is an IEEE binary64 value: a finite value (carried as the rational it
  denotes; the sign of zero is not kept, nothing here reads it), an infinity or a NaN.
\<close>

datatype pyfloat = Finite rat | PosInf | NegInf | NaN

datatype pyerr = ValueError | OverflowError

definition round_half_even :: "rat \<Rightarrow> int" where
  "round_half_even x =
     (let f = \<lfloor>x\<rfloor>; d = x - of_int f
      in if d < 1 / 2 then f else if 1 / 2 < d then f + 1 else if even f then f else f + 1)"

text \<open>For positive \<open>x\<close>, the exponent \<open>e\<close> with \<open>2 ^ e \<le> x < 2 ^ (e + 1)\<close>.\<close>

definition binade :: "rat \<Rightarrow> int" where
  "binade x =
     (let (a, b) = quotient_of x; d = bitlen a - bitlen b
      in if of_int b * (2 powi d) \<le> (of_int a :: rat) then d else d - 1)"

text \<open>
  The binary64 value nearest to a positive rational, ties to even, not yet bounded
  above: 53 significant bits, and the fixed step \<open>2 ^ -1074\<close> of the subnormals below
  \<open>2 ^ -1022\<close>.
\<close>

definition b64_nearest :: "rat \<Rightarrow> rat" where
  "b64_nearest a =
     (let u = 2 powi (max (binade a) (- 1022) - 52)
      in of_int (round_half_even (a / u)) * u)"

text \<open>Rounding a rational to binary64: overflow to an infinity from \<open>2 ^ 1024\<close> on.\<close>

definition b64_round :: "rat \<Rightarrow> pyfloat" where
  "b64_round x =
     (if x = 0 then Finite 0
      else let r = b64_nearest \<bar>x\<bar>
           in if 2 powi 1024 \<le> r then (if 0 < x then PosInf else NegInf)
              else Finite (if 0 < x then r else - r))"

definition is_digit :: "char \<Rightarrow> bool" where
  "is_digit c = (let n = (of_char c :: nat) in 48 \<le> n \<and> n \<le> 57)"

definition digit_val :: "char \<Rightarrow> nat" where
  "digit_val c = of_char c - 48"

definition digits_val :: "string \<Rightarrow> nat" where
  "digits_val ds = foldl (\<lambda>acc c. 10 * acc + digit_val c) 0 ds"

definition lower_ascii :: "char \<Rightarrow> char" where
  "lower_ascii c = (let n = (of_char c :: nat) in if 65 \<le> n \<and> n \<le> 90 then char_of (n + 32) else c)"

text \<open>
  An underscore in a numeric literal must stand between two digits; valid underscores
  are dropped before the number is read. \<open>prev\<close> is the preceding character.
\<close>

fun drop_underscores :: "char option \<Rightarrow> string \<Rightarrow> string option" where
  "drop_underscores prev [] = (if prev = Some CHR ''_'' then None else Some [])"
| "drop_underscores prev (c # cs) =
     (if c = CHR ''_'' then
        (case prev of
           None \<Rightarrow> None
         | Some p \<Rightarrow> if is_digit p then drop_underscores (Some c) cs else None)
      else if prev = Some CHR ''_'' \<and> \<not> is_digit c then None
      else map_option ((#) c) (drop_underscores (Some c) cs))"

text \<open>Whitespace that \<open>float\<close> skips at both ends: the ASCII blanks, and the two spaces
  above 127 (next line, no-break space), which it first turns into blanks.\<close>

definition float_space :: "char \<Rightarrow> bool" where
  "float_space c = (let n = (of_char c :: nat) in
     (9 \<le> n \<and> n \<le> 13) \<or> n = 32 \<or> n = 133 \<or> n = 160)"

text \<open>An optional sign: the factor and the rest.\<close>

fun take_sign :: "string \<Rightarrow> bool \<times> string" where
  "take_sign [] = (False, [])"
| "take_sign (c # cs) =
     (if c = CHR ''-'' then (True, cs) else if c = CHR ''+'' then (False, cs) else (False, c # cs))"

text \<open>The exponent part: absent, or \<open>e\<close>, an optional sign and at least one digit, up to
  the end of the text. Anything else is left over text, which \<open>float\<close> rejects.\<close>

definition read_exponent :: "string \<Rightarrow> int option" where
  "read_exponent s =
     (case s of
        [] \<Rightarrow> Some 0
      | c # cs \<Rightarrow>
          if c = CHR ''e'' \<or> c = CHR ''E'' then
            (let (neg, ds) = take_sign cs
             in if ds \<noteq> [] \<and> list_all is_digit ds
                then Some (if neg then - int (digits_val ds) else int (digits_val ds))
                else None)
          else None)"

text \<open>A decimal number without sign: digits, an optional point and digits (at least one
  digit in all), and the exponent part. The result is the exact decimal value.\<close>

definition read_decimal :: "string \<Rightarrow> rat option" where
  "read_decimal s =
     (let ip = takeWhile is_digit s; r1 = dropWhile is_digit s;
          (fp, r2) = (case r1 of
                        c # cs \<Rightarrow> if c = CHR ''.'' then (takeWhile is_digit cs, dropWhile is_digit cs)
                                  else ([], r1)
                      | [] \<Rightarrow> ([], r1))
      in if ip = [] \<and> fp = [] then None
         else case read_exponent r2 of
                None \<Rightarrow> None
              | Some e \<Rightarrow>
                  Some (of_nat (digits_val (ip @ fp)) * (10 powi (e - int (length fp)))))"

definition py_float :: "string \<Rightarrow> pyerr + pyfloat" where
  "py_float s =
     (case drop_underscores None s of
        None \<Rightarrow> Inl ValueError
      | Some t \<Rightarrow>
          (let (neg, body) = take_sign (strip_chars float_space t);
               w = map lower_ascii body
           in if w = ''inf'' \<or> w = ''infinity'' then Inr (if neg then NegInf else PosInf)
              else if w = ''nan'' then Inr NaN
              else case read_decimal body of
                     None \<Rightarrow> Inl ValueError
                   | Some v \<Rightarrow> Inr (b64_round (if neg then - v else v))))"

text \<open>\<open>x / 10\<close> on floats.\<close>

fun float_div10 :: "pyfloat \<Rightarrow> pyfloat" where
  "float_div10 (Finite x) = b64_round (x / 10)"
| "float_div10 PosInf = PosInf"
| "float_div10 NegInf = NegInf"
| "float_div10 NaN = NaN"

text \<open>\<open>int(x)\<close> on a float truncates towards zero; it raises on an infinity or a NaN.\<close>

fun py_int :: "pyfloat \<Rightarrow> pyerr + int" where
  "py_int (Finite x) = Inr (if 0 \<le> x then \<lfloor>x\<rfloor> else \<lceil>x\<rceil>)"
| "py_int PosInf = Inl OverflowError"
| "py_int NegInf = Inl OverflowError"
| "py_int NaN = Inl ValueError"

text \<open>\<open>a - b\<close> on two finite floats, and \<open>x > c\<close> for a float and a whole number.\<close>

definition float_sub :: "rat \<Rightarrow> rat \<Rightarrow> pyfloat" where
  "float_sub a b = b64_round (a - b)"

fun float_gt :: "pyfloat \<Rightarrow> rat \<Rightarrow> bool" where
  "float_gt (Finite x) c = (c < x)"
| "float_gt PosInf c = True"
| "float_gt NegInf c = False"
| "float_gt NaN c = False"

section \<open>The progress bar\<close>

text \<open>
  The \<open>try\<close> block of \<open>create_progress_bar\<close>: the text before the first point of the
  percent string without its percent signs, read as a float; \<open>0\<close> when that raises
  \<open>ValueError\<close>, the one exception \<open>float\<close> has for a string.
\<close>

definition percent_token :: "string \<Rightarrow> string" where
  "percent_token percentage_str = split_head CHR ''.'' (strip_chars (\<lambda>c. c = CHR ''%'') percentage_str)"

definition percent_value :: "string \<Rightarrow> pyfloat" where
  "percent_value percentage_str =
     (case py_float (percent_token percentage_str) of
        Inl e \<Rightarrow> Finite 0
      | Inr v \<Rightarrow> v)"

text \<open>\<open>filled_bars = int(percent_value / 10)\<close>, outside the \<open>try\<close>: its exception leaves
  the function.\<close>

definition filled_bars :: "string \<Rightarrow> pyerr + int" where
  "filled_bars percentage_str = py_int (float_div10 (percent_value percentage_str))"

text \<open>
  \<open>c * n\<close> on a one-character string: empty when \<open>n\<close> is not positive, and
  \<open>OverflowError\<close> when \<open>n\<close> does not fit the index type (64 bits, as \<open>sys.maxsize\<close> has it
  on a 64-bit build). Memory has no bound here: a count that fits the index type gives
  the string, however long.
\<close>

definition repeat :: "uchar \<Rightarrow> int \<Rightarrow> pyerr + pystr" where
  "repeat c n =
     (if n < - (2 ^ 63) \<or> 2 ^ 63 - 1 < n then Inl OverflowError
      else Inr (replicate (nat n) c))"

definition create_progress_bar :: "string \<Rightarrow> pyerr + pystr" where
  "create_progress_bar percentage_str =
     (case filled_bars percentage_str of
        Inl e \<Rightarrow> Inl e
      | Inr filled \<Rightarrow>
          (let bars = 10; empty_bars = bars - filled
           in case repeat blue_square filled of
                Inl e \<Rightarrow> Inl e
              | Inr filled_part \<Rightarrow>
                  (case repeat white_square empty_bars of
                     Inl e \<Rightarrow> Inl e
                   | Inr empty_part \<Rightarrow>
                       (let progress_bar = filled_part @ empty_part
                        in Inr (ustr ''`'' @ progress_bar @ ustr ''` '' @ ustr percentage_str)))))"

section \<open>Sessions, progress snapshots and the messaging calls\<close>

type_synonym chat_id = int
type_synonym message_id = int

text \<open>An entry of \<open>user_data\<close>: the dictionary that \<open>handle_url\<close> creates with three
  keys and to which the later steps add keys; a key not yet added is \<open>None\<close>.\<close>

record session =
  url :: string
  user_id :: int
  chat_id :: chat_id
  format_message_id :: "message_id option"
  format :: "string option"
  progress_message_id :: "message_id option"
  title :: "pystr option"

text \<open>An entry of \<open>download_progress\<close>; every write stores all five keys. A time stamp of
  \<open>time.time()\<close> is a finite float, carried as the rational it denotes.\<close>

record snapshot =
  status :: string
  percent :: string
  speed :: string
  eta :: string
  last_update :: rat

text \<open>The body of a message: one of the fixed texts of the source, a computed text, or
  the summary of a finished download (title, format, size in MB).\<close>

datatype msg_text =
    InvalidUrlText
  | ChooseFormatText
  | SessionExpiredText
  | InitializingText
  | StartingText
  | UploadingText
  | Plain pystr
  | CompleteText pystr string nat

text \<open>The calls the bot makes to Telegram and to the downloader, in the order made.\<close>

datatype call =
    ReplyText chat_id msg_text
  | AnswerQuery
  | EditQueryMessage chat_id msg_text
  | EditMessageText chat_id message_id msg_text
  | SendMessage chat_id msg_text
  | SendAudio chat_id string pystr pystr
  | SendVideo chat_id string pystr int int int
  | DeleteMessage chat_id message_id
  | ExtractInfo string
  | Download string string

text \<open>The two global dictionaries and the trace of calls. \<open>download_progress\<close> keeps
  its insertion order, which the reporter iterates in.\<close>

record bot =
  user_data :: "chat_id \<rightharpoonup> session"
  download_progress :: "(chat_id \<times> snapshot) list"
  calls :: "call list"

definition emit :: "call \<Rightarrow> bot \<Rightarrow> bot" where
  "emit c st = st\<lparr>calls := calls st @ [c]\<rparr>"

text \<open>A dictionary has each key once.\<close>

definition store_ok :: "bot \<Rightarrow> bool" where
  "store_ok st = distinct (map fst (download_progress st))"

section \<open>The progress hook\<close>

text \<open>The dictionary the downloader passes to the hook, with the time of the call.\<close>

record hook_event =
  h_status :: string
  h_percent :: "string option"
  h_speed :: "string option"
  h_eta :: "string option"
  h_time :: rat

definition dict_get :: "'a option \<Rightarrow> 'a \<Rightarrow> 'a" where
  "dict_get v d = (case v of None \<Rightarrow> d | Some x \<Rightarrow> x)"

definition progress_hook :: "chat_id \<Rightarrow> hook_event \<Rightarrow> bot \<Rightarrow> bot" where
  "progress_hook cid d st =
     (if h_status d = ''downloading'' then
        st\<lparr>download_progress := AList.update cid
             \<lparr>status = ''downloading'', percent = dict_get (h_percent d) ''0%'',
              speed = dict_get (h_speed d) ''N/A'', eta = dict_get (h_eta d) ''N/A'',
              last_update = h_time d\<rparr> (download_progress st)\<rparr>
      else if h_status d = ''finished'' then
        st\<lparr>download_progress := AList.update cid
             \<lparr>status = ''finished'', percent = ''100%'', speed = ''N/A'', eta = ''0s'',
              last_update = h_time d\<rparr> (download_progress st)\<rparr>
      else st)"

section \<open>The reporter: \<open>progress_updater\<close>\<close>

definition status_text :: "pystr \<Rightarrow> string \<Rightarrow> string \<Rightarrow> pystr" where
  "status_text progress_bar spd et =
     [inbox_tray] @ ustr '' *Downloading...*\<newline>\<newline>'' @ progress_bar
     @ ustr ''\<newline>**Speed:** '' @ ustr spd @ ustr ''\<newline>**ETA:** '' @ ustr et
     @ ustr ''\<newline>\<newline>`Please wait, processing at maximum speed...`''"

text \<open>
  One iteration of the loop, on an item of the copy taken when the tick starts.
  \<open>now\<close> is what \<open>time.time()\<close> returns in this iteration; the age it is compared by is
  the difference of two floats, itself a float. An exception inside the
  iteration (of \<open>create_progress_bar\<close>, or of the edit) is caught and logged; the edit
  is in the trace whether or not Telegram accepts it.
\<close>

definition report_one :: "(chat_id \<Rightarrow> rat) \<Rightarrow> chat_id \<times> snapshot \<Rightarrow> bot \<Rightarrow> bot" where
  "report_one now item st =
     (let cid = fst item; progress_data = snd item
      in if float_gt (float_sub (now cid) (last_update progress_data)) 300 then
           st\<lparr>download_progress := AList.delete cid (download_progress st)\<rparr>
         else if status progress_data = ''downloading'' then
           (case create_progress_bar (percent progress_data) of
              Inl e \<Rightarrow> st
            | Inr progress_bar \<Rightarrow>
                (case user_data st cid of
                   None \<Rightarrow> st
                 | Some sess \<Rightarrow>
                     (case progress_message_id sess of
                        None \<Rightarrow> st
                      | Some pmid \<Rightarrow>
                          emit (EditMessageText cid pmid
                                 (Plain (status_text progress_bar (speed progress_data)
                                           (eta progress_data)))) st)))
         else st)"

definition progress_updater :: "(chat_id \<Rightarrow> rat) \<Rightarrow> bot \<Rightarrow> bot" where
  "progress_updater now st = foldl (\<lambda>s item. report_one now item s) st (download_progress st)"

section \<open>\<open>handle_url\<close>\<close>

definition strip_prefix :: "string \<Rightarrow> string \<Rightarrow> string option" where
  "strip_prefix p s = (if take (length p) s = p then Some (drop (length p) s) else None)"

text \<open>What is left of each text in \<open>rs\<close> after one of the alternatives \<open>alts\<close>.\<close>

definition after_any :: "string list \<Rightarrow> string list \<Rightarrow> string list" where
  "after_any alts rs = concat (map (\<lambda>r. List.map_filter (\<lambda>p. strip_prefix p r) alts) rs)"

text \<open>
  \<open>re.match\<close> of
  \<^verbatim>\<open>(https?://)?(www\.)?(youtube|youtu|youtube-nocookie)\.(com|be)/.+\<close>:
  the pattern matches at the start of the text, not necessarily to its end; a point
  matches any character but the line feed.
\<close>

definition youtube_match :: "string \<Rightarrow> bool" where
  "youtube_match u =
     (let r0 = [u];
          r1 = r0 @ after_any [''http://'', ''https://''] r0;
          r2 = r1 @ after_any [''www.''] r1;
          r3 = after_any [''youtube'', ''youtu'', ''youtube-nocookie''] r2;
          r4 = after_any [''.''] r3;
          r5 = after_any [''com'', ''be''] r4;
          r6 = after_any [''/''] r5
      in list_ex (\<lambda>r. case r of [] \<Rightarrow> False | c # cs \<Rightarrow> c \<noteq> CHR 0x0A) r6)"

record message_update =
  m_text :: string
  m_chat_id :: chat_id
  m_user_id :: int

text \<open>
  A handler returns \<open>None\<close> when it returns, \<open>Some cause\<close> when an exception leaves it,
  and the state it leaves behind. \<open>r_reply\<close> is the outcome of the one \<open>reply_text\<close>
  call: the exception's text, or the id of the message sent.
\<close>

definition handle_url :: "pystr + message_id \<Rightarrow> message_update \<Rightarrow> bot \<Rightarrow> pystr option \<times> bot" where
  "handle_url r_reply upd st =
     (let u = py_strip (m_text upd); cid = m_chat_id upd
      in if \<not> youtube_match u then
           (case r_reply of Inl c \<Rightarrow> Some c | Inr mid \<Rightarrow> None, emit (ReplyText cid InvalidUrlText) st)
         else
           (let st1 = st\<lparr>user_data := (user_data st)(cid \<mapsto>
                         \<lparr>url = u, user_id = m_user_id upd, chat_id = cid,
                          format_message_id = None, format = None,
                          progress_message_id = None, title = None\<rparr>)\<rparr>;
                st2 = emit (ReplyText cid ChooseFormatText) st1
            in case r_reply of
                 Inl c \<Rightarrow> (Some c, st2)
               | Inr mid \<Rightarrow>
                   (None, st2\<lparr>user_data := (user_data st2)(cid \<mapsto>
                       \<lparr>url = u, user_id = m_user_id upd, chat_id = cid,
                        format_message_id = Some mid, format = None,
                        progress_message_id = None, title = None\<rparr>)\<rparr>)))"

section \<open>\<open>download_media\<close>\<close>

text \<open>What \<open>extract_info\<close> returns, as far as it is read: a key that is absent is \<open>None\<close>.\<close>

record info =
  i_title :: "pystr option"
  i_width :: "int option"
  i_height :: "int option"
  i_duration :: "int option"

text \<open>
  What the world outside answers during one run of \<open>download_media\<close>. A call that can
  raise has an outcome \<open>Some cause\<close> (the text of the exception) or \<open>None\<close> (it returned);
  \<open>r_listdir\<close> is the directory listing after the download, each name with its size.
\<close>

record job_env =
  t_start :: rat
  r_edit_starting :: "pystr option"
  r_extract :: "pystr + info"
  r_hooks :: "hook_event list"
  r_download :: "pystr option"
  r_listdir :: "(string \<times> nat) list"
  r_edit_uploading :: "pystr option"
  r_send_media :: "pystr option"
  r_delete :: "pystr option"
  r_send_summary :: "pystr option"
  r_edit_error :: "pystr option"
  r_send_error :: "pystr option"

definition endswith :: "string \<Rightarrow> string \<Rightarrow> bool" where
  "endswith s suf = (length suf \<le> length s \<and> drop (length s - length suf) s = suf)"

definition startswith :: "string \<Rightarrow> string \<Rightarrow> bool" where
  "startswith s pre = (take (length pre) s = pre)"

text \<open>The inner \<open>try\<close> of the download: the status edit, \<open>blocking_download\<close> (metadata,
  title, the hook calls of the download itself), the title read back. Any exception is
  raised again as \<open>Download process failed\<close>. The result is the metadata and the title.\<close>

definition fetch_stage ::
  "job_env \<Rightarrow> chat_id \<Rightarrow> session \<Rightarrow> string \<Rightarrow> message_id \<Rightarrow> bot \<Rightarrow> (pystr + info \<times> pystr) \<times> bot" where
  "fetch_stage env cid sess format_type pmid st =
     (let failed = (\<lambda>e. ustr ''Download process failed: '' @ e);
          st1 = emit (EditMessageText cid pmid StartingText) st
      in case r_edit_starting env of
           Some e \<Rightarrow> (Inl (failed e), st1)
         | None \<Rightarrow>
             (let st2 = emit (ExtractInfo (url sess)) st1
              in case r_extract env of
                   Inl e \<Rightarrow> (Inl (failed e), st2)
                 | Inr meta \<Rightarrow>
                     (let ttl = dict_get (i_title meta) (ustr ''download'');
                          st3 = st2\<lparr>user_data := (user_data st2)(cid \<mapsto> sess\<lparr>title := Some ttl\<rparr>),
                                    download_progress :=
                                      AList.map_entry cid (\<lambda>p. p\<lparr>status := ''downloading''\<rparr>)
                                        (download_progress st2)\<rparr>;
                          st4 = emit (Download (url sess) format_type) st3;
                          st5 = foldl (\<lambda>s d. progress_hook cid d s) st4 (r_hooks env)
                      in case r_download env of
                           Some e \<Rightarrow> (Inl (failed e), st5)
                         | None \<Rightarrow> (Inr (meta, ttl), st5))))"

definition size_limit :: nat where
  "size_limit = 2000 * 1024 * 1024"

text \<open>The inner \<open>try\<close> of the upload. Any exception, the size check's included, is raised
  again as \<open>Upload to Telegram failed\<close>.\<close>

definition upload_stage ::
  "job_env \<Rightarrow> chat_id \<Rightarrow> string \<Rightarrow> string \<Rightarrow> nat \<Rightarrow> info \<Rightarrow> pystr \<Rightarrow> bot \<Rightarrow> (pystr + unit) \<times> bot" where
  "upload_stage env cid format_type downloaded_file file_size meta ttl st =
     (let failed = (\<lambda>e. ustr ''Upload to Telegram failed: '' @ e);
          caption = (if format_type = ''mp4'' then [U 0x1F3A5] @ ustr '' '' @ ttl
                     else [U 0x1F3B5] @ ustr '' '' @ ttl)
      in if format_type = ''mp3'' then
           (let st1 = emit (SendAudio cid downloaded_file caption (take 64 ttl)) st
            in case r_send_media env of
                 Some e \<Rightarrow> (Inl (failed e), st1)
               | None \<Rightarrow> (Inr (), st1))
         else if file_size > size_limit then
           (Inl (failed (ustr ''File too large for Telegram (2GB limit).'')), st)
         else
           (let st1 = emit (SendVideo cid downloaded_file caption
                             (dict_get (i_width meta) 1280) (dict_get (i_height meta) 720)
                             (dict_get (i_duration meta) 0)) st
            in case r_send_media env of
                 Some e \<Rightarrow> (Inl (failed e), st1)
               | None \<Rightarrow> (Inr (), st1)))"

text \<open>After the download: the first listed file that ends in \<open>.mp4\<close> or \<open>.mp3\<close>, the
  upload, the removal of the status message, the summary.\<close>

definition deliver_stage ::
  "job_env \<Rightarrow> chat_id \<Rightarrow> string \<Rightarrow> message_id \<Rightarrow> info \<Rightarrow> pystr \<Rightarrow> bot \<Rightarrow> (pystr + unit) \<times> bot" where
  "deliver_stage env cid format_type pmid meta ttl st =
     (case find (\<lambda>f. endswith (fst f) ''.mp4'' \<or> endswith (fst f) ''.mp3'') (r_listdir env) of
        None \<Rightarrow> (Inl (ustr ''Downloaded file not found or is empty.''), st)
      | Some (downloaded_file, file_size) \<Rightarrow>
          if file_size = 0 then (Inl (ustr ''Downloaded file not found or is empty.''), st)
          else
            (let st1 = emit (EditMessageText cid pmid UploadingText) st
             in case r_edit_uploading env of
                  Some e \<Rightarrow> (Inl e, st1)
                | None \<Rightarrow>
                    (case upload_stage env cid format_type downloaded_file file_size meta ttl st1 of
                       (Inl e, st2) \<Rightarrow> (Inl e, st2)
                     | (Inr u, st2) \<Rightarrow>
                         (let st3 = emit (DeleteMessage cid pmid) st2
                          in case r_delete env of
                               Some e \<Rightarrow> (Inl e, st3)
                             | None \<Rightarrow>
                                 (let st4 = emit (SendMessage cid
                                       (CompleteText ttl format_type (file_size div (1024 * 1024)))) st3
                                  in case r_send_summary env of
                                       Some e \<Rightarrow> (Inl e, st4)
                                     | None \<Rightarrow> (Inr (), st4))))))"

text \<open>
  The body of the outer \<open>try\<close>. \<open>Inr ()\<close>: it came to its end, or returned at once because
  the chat has no session; \<open>Inl cause\<close>: an exception with that text. Reading a key the
  session does not have raises \<open>KeyError\<close>, whose text is the quoted key.
\<close>

definition job_body :: "job_env \<Rightarrow> chat_id \<Rightarrow> bot \<Rightarrow> (pystr + unit) \<times> bot" where
  "job_body env cid st =
     (case user_data st cid of
        None \<Rightarrow> (Inr (), st)
      | Some sess \<Rightarrow>
          (case format sess of
             None \<Rightarrow> (Inl (ustr [CHR 0x27] @ ustr ''format'' @ ustr [CHR 0x27]), st)
           | Some format_type \<Rightarrow>
               (case progress_message_id sess of
                  None \<Rightarrow> (Inl (ustr [CHR 0x27] @ ustr ''progress_message_id'' @ ustr [CHR 0x27]), st)
                | Some pmid \<Rightarrow>
                    (let st1 = st\<lparr>download_progress := AList.update cid
                                 \<lparr>status = ''starting'', percent = ''0%'', speed = ''N/A'',
                                  eta = ''N/A'', last_update = t_start env\<rparr> (download_progress st)\<rparr>
                     in case fetch_stage env cid sess format_type pmid st1 of
                          (Inl e, st2) \<Rightarrow> (Inl e, st2)
                        | (Inr (meta, ttl), st2) \<Rightarrow> deliver_stage env cid format_type pmid meta ttl st2))))"

definition error_msg :: "pystr \<Rightarrow> pystr" where
  "error_msg e =
     [cross_mark] @ ustr '' *Download/Upload Failed!*\<newline>\<newline>Reason: `'' @ take 100 e
     @ ustr ''`\<newline>\<newline>Please try a different video or try again later.''"

text \<open>The \<open>except\<close> block: the error text goes into the status message; when that edit
  raises (or the message id cannot be read), it is sent as a new message, and an
  exception of that last call leaves \<open>download_media\<close>.\<close>

definition report_error :: "job_env \<Rightarrow> chat_id \<Rightarrow> pystr \<Rightarrow> bot \<Rightarrow> pystr option \<times> bot" where
  "report_error env cid e st =
     (let send = (\<lambda>s. (r_send_error env, emit (SendMessage cid (Plain (error_msg e))) s))
      in case user_data st cid of
           None \<Rightarrow> send st
         | Some sess \<Rightarrow>
             (case progress_message_id sess of
                None \<Rightarrow> send st
              | Some pmid \<Rightarrow>
                  (let st1 = emit (EditMessageText cid pmid (Plain (error_msg e))) st
                   in case r_edit_error env of
                        None \<Rightarrow> (None, st1)
                      | Some e' \<Rightarrow> send st1)))"

text \<open>The whole function: body, \<open>except\<close>, and the \<open>finally\<close> that deletes the chat's
  progress entry on every way out.\<close>

definition download_media :: "job_env \<Rightarrow> chat_id \<Rightarrow> bot \<Rightarrow> pystr option \<times> bot" where
  "download_media env cid st =
     (let (r, st1) = job_body env cid st;
          (out, st2) = (case r of Inr u \<Rightarrow> (None, st1) | Inl e \<Rightarrow> report_error env cid e st1)
      in (out, st2\<lparr>download_progress := AList.delete cid (download_progress st2)\<rparr>))"

section \<open>\<open>button_handler\<close>\<close>

record callback_query =
  q_chat_id :: chat_id
  q_data :: string

record button_env =
  r_answer :: "pystr option"
  r_edit_expired :: "pystr option"
  r_reply_init :: "pystr + message_id"
  r_job :: job_env

definition button_handler :: "button_env \<Rightarrow> callback_query \<Rightarrow> bot \<Rightarrow> pystr option \<times> bot" where
  "button_handler env query st =
     (let st0 = emit AnswerQuery st; cid = q_chat_id query; data = q_data query
      in case r_answer env of
           Some e \<Rightarrow> (Some e, st0)
         | None \<Rightarrow>
             if startswith data ''format_'' then
               (case user_data st0 cid of
                  None \<Rightarrow> (r_edit_expired env, emit (EditQueryMessage cid SessionExpiredText) st0)
                | Some sess \<Rightarrow>
                    (let format_type = split_second CHR ''_'' data;
                         sess1 = sess\<lparr>format := Some format_type\<rparr>;
                         st1 = st0\<lparr>user_data := (user_data st0)(cid \<mapsto> sess1)\<rparr>;
                         st2 = emit (ReplyText cid InitializingText) st1
                     in case r_reply_init env of
                          Inl e \<Rightarrow> (Some e, st2)
                        | Inr mid \<Rightarrow>
                            download_media (r_job env) cid
                              (st2\<lparr>user_data := (user_data st2)(cid \<mapsto>
                                     sess1\<lparr>progress_message_id := Some mid\<rparr>)\<rparr>)))
             else (None, st0))"

section \<open>Reading a rendered bar\<close>

text \<open>The numbers of filled and of empty segments in what \<open>create_progress_bar\<close>
  returns; \<open>None\<close> when it raises.\<close>

definition segments :: "pyerr + pystr \<Rightarrow> (nat \<times> nat) option" where
  "segments r =
     (case r of
        Inl e \<Rightarrow> None
      | Inr out \<Rightarrow> Some (count_list out blue_square, count_list out white_square))"

text \<open>The segment counts in the words of the specification: ten segments, the filled
  ones \<open>floor (percent / 10)\<close> clamped into \<open>[0, 10]\<close>.\<close>

definition spec_segments :: "int \<Rightarrow> nat \<times> nat" where
  "spec_segments p = (let f = nat (max 0 (min 10 (p div 10))) in (f, 10 - f))"

section \<open>Reading a trace\<close>

text \<open>The chat a call is addressed to, for the calls that go to a chat.\<close>

fun call_chat :: "call \<Rightarrow> chat_id option" where
  "call_chat (ReplyText c t) = Some c"
| "call_chat AnswerQuery = None"
| "call_chat (EditQueryMessage c t) = Some c"
| "call_chat (EditMessageText c m t) = Some c"
| "call_chat (SendMessage c t) = Some c"
| "call_chat (SendAudio c f cap ttl) = Some c"
| "call_chat (SendVideo c f cap w h d) = Some c"
| "call_chat (DeleteMessage c m) = Some c"
| "call_chat (ExtractInfo u) = None"
| "call_chat (Download u f) = None"

definition calls_to :: "chat_id \<Rightarrow> call list \<Rightarrow> call list" where
  "calls_to cid cs = filter (\<lambda>c. call_chat c = Some cid) cs"

section \<open>Example runs\<close>

text \<open>Chat 7 after its link was accepted and a format button was pressed: the session
  has its format and the id of the status message.\<close>

definition ready_state :: "string \<Rightarrow> bot" where
  "ready_state format_type =
     \<lparr>user_data = [7 \<mapsto> \<lparr>url = ''https://youtu.be/abc'', user_id = 3, chat_id = 7,
                           format_message_id = Some 10, format = Some format_type,
                           progress_message_id = Some 11, title = None\<rparr>],
      download_progress = [], calls = []\<rparr>"

text \<open>A run in which every call succeeds, the download reports progress twice and
  leaves one file of the given name and size.\<close>

definition smooth_env :: "string \<Rightarrow> nat \<Rightarrow> job_env" where
  "smooth_env name sz =
     \<lparr>t_start = 1000, r_edit_starting = None,
      r_extract = Inr \<lparr>i_title = Some (ustr ''T''), i_width = None, i_height = None,
                       i_duration = Some 60\<rparr>,
      r_hooks = [\<lparr>h_status = ''downloading'', h_percent = Some '' 45.3%'',
                  h_speed = Some ''1MiB/s'', h_eta = None, h_time = 1002\<rparr>,
                 \<lparr>h_status = ''finished'', h_percent = None, h_speed = None, h_eta = None,
                  h_time = 1004\<rparr>],
      r_download = None, r_listdir = [(name, sz)], r_edit_uploading = None,
      r_send_media = None, r_delete = None, r_send_summary = None,
      r_edit_error = None, r_send_error = None\<rparr>"



section \<open>Binary64 rounding\<close>

lemma rhe_of_int: "round_half_even (of_int k) = k"
  by (simp add: round_half_even_def)

lemma rhe_upper: "of_int (round_half_even x) \<le> x + 1 / 2"
  unfolding round_half_even_def Let_def
  by (auto simp: not_less) linarith+

lemma bitlen_powi:
  assumes "0 < a"
  shows "(2::rat) powi (bitlen a - 1) \<le> of_int a" "of_int a < (2::rat) powi (bitlen a)"
proof -
  from bitlen_bounds[OF assms] have 1: "2 ^ nat (bitlen a - 1) \<le> a" and 2: "a < 2 ^ nat (bitlen a)"
    by auto
  have ge: "bitlen a \<ge> 1" using assms bitlen_eq_zero_iff[of a] bitlen_nonneg[of a] by linarith
  have "(2::rat) powi (bitlen a - 1) = 2 ^ nat (bitlen a - 1)"
    using ge by (simp add: power_int_def)
  also have "\<dots> = of_int (2 ^ nat (bitlen a - 1))" by simp
  also have "\<dots> \<le> of_int a" using 1 by (simp only: of_int_le_iff)
  finally show "(2::rat) powi (bitlen a - 1) \<le> of_int a" .
  have "(of_int a :: rat) < of_int (2 ^ nat (bitlen a))" using 2 by (simp only: of_int_less_iff)
  also have "\<dots> = 2 powi (bitlen a)" using ge by (simp add: power_int_def)
  finally show "of_int a < (2::rat) powi (bitlen a)" .
qed

lemma binade_bounds:
  assumes "0 < x"
  shows "2 powi (binade x) \<le> x" "x < 2 powi (binade x + 1)"
proof -
  obtain a b where q: "quotient_of x = (a, b)" by (cases "quotient_of x")
  have b: "0 < b" using q by (rule quotient_of_denom_pos)
  have x: "x = of_int a / of_int b" using q by (rule quotient_of_div)
  have a: "0 < a" using assms b x by (simp add: zero_less_divide_iff)
  define d where "d = bitlen a - bitlen b"
  note A = bitlen_powi[OF a] and B = bitlen_powi[OF b]
  have bpos: "(0::rat) < of_int b" using b by simp
  have split1: "(2::rat) powi (bitlen a) = 2 powi (bitlen b - 1) * 2 powi (d + 1)"
    by (simp add: d_def power_int_add[symmetric])
  have split2: "(2::rat) powi (bitlen a - 1) = 2 powi (bitlen b) * 2 powi (d - 1)"
    by (simp add: d_def power_int_add[symmetric])
  have p1: "(0::rat) < 2 powi (d + 1)" and p2: "(0::rat) < 2 powi (d - 1)" by simp_all
  have up: "of_int a < of_int b * (2::rat) powi (d + 1)"
  proof -
    have "of_int a < (2::rat) powi (bitlen b - 1) * 2 powi (d + 1)" using A(2) split1 by simp
    also have "\<dots> \<le> of_int b * 2 powi (d + 1)" using B(1) p1 by (simp add: mult_right_mono)
    finally show ?thesis .
  qed
  have lo: "of_int b * (2::rat) powi (d - 1) < of_int a"
  proof -
    have "of_int b * (2::rat) powi (d - 1) < 2 powi (bitlen b) * 2 powi (d - 1)"
      using B(2) p2 by (simp add: mult_strict_right_mono)
    also have "\<dots> \<le> of_int a" using A(1) split2 by simp
    finally show ?thesis .
  qed
  show "2 powi (binade x) \<le> x"
  proof (cases "of_int b * (2 powi d) \<le> (of_int a :: rat)")
    case True
    then have "binade x = d" by (simp add: binade_def q d_def)
    moreover have "2 powi d \<le> x" using True bpos x by (simp add: pos_le_divide_eq mult.commute)
    ultimately show ?thesis by simp
  next
    case False
    then have "binade x = d - 1" by (simp add: binade_def q d_def)
    moreover have "2 powi (d - 1) \<le> x" using lo bpos x by (simp add: pos_le_divide_eq mult.commute)
    ultimately show ?thesis by simp
  qed
  show "x < 2 powi (binade x + 1)"
  proof (cases "of_int b * (2 powi d) \<le> (of_int a :: rat)")
    case True
    then have "binade x = d" by (simp add: binade_def q d_def)
    moreover have "x < 2 powi (d + 1)" using up bpos x by (simp add: pos_divide_less_eq mult.commute)
    ultimately show ?thesis by simp
  next
    case False
    then have "binade x = d - 1" by (simp add: binade_def q d_def)
    moreover have "x < 2 powi d" using False bpos x by (simp add: pos_divide_less_eq mult.commute not_le)
    ultimately show ?thesis by simp
  qed
qed


lemma rhe_mono: "x \<le> y \<Longrightarrow> round_half_even x \<le> round_half_even y"
proof -
  assume xy: "x \<le> y"
  have fl: "\<lfloor>x\<rfloor> \<le> \<lfloor>y\<rfloor>" using xy by (rule floor_mono)
  show ?thesis
  proof (cases "\<lfloor>x\<rfloor> = \<lfloor>y\<rfloor>")
    case True
    then show ?thesis using xy unfolding round_half_even_def Let_def by auto
  next
    case False
    then have "\<lfloor>x\<rfloor> + 1 \<le> \<lfloor>y\<rfloor>" using fl by simp
    moreover have "round_half_even x \<le> \<lfloor>x\<rfloor> + 1" unfolding round_half_even_def Let_def by auto
    moreover have "\<lfloor>y\<rfloor> \<le> round_half_even y" unfolding round_half_even_def Let_def by auto
    ultimately show ?thesis by linarith
  qed
qed

lemma binade_mono:
  assumes "0 < x" "x \<le> y"
  shows "binade x \<le> binade y"
proof -
  have y: "0 < y" using assms by simp
  have "(2::rat) powi binade x \<le> x" using binade_bounds(1)[OF assms(1)] .
  also have "x \<le> y" by fact
  also have "y < 2 powi (binade y + 1)" using binade_bounds(2)[OF y] .
  finally have "binade x < binade y + 1"
    by (metis not_less power_int_increasing[of "binade y + 1" "binade x" "2::rat"] one_le_numeral)
  then show ?thesis by simp
qed

text \<open>The nearest value lies between the powers of two that enclose the argument.\<close>

lemma b64_nearest_normal:
  assumes "0 < x" "- 1022 \<le> binade x"
  shows "2 powi binade x \<le> b64_nearest x" "b64_nearest x \<le> 2 powi (binade x + 1)"
proof -
  define u :: rat where "u = 2 powi (binade x - 52)"
  have u: "0 < u" by (simp add: u_def)
  have n: "b64_nearest x = of_int (round_half_even (x / u)) * u"
    using assms(2) by (simp add: b64_nearest_def u_def max_def Let_def)
  note B = binade_bounds[OF assms(1)]
  have lo: "(2::rat) powi binade x = of_int (2 ^ 52) * u"
    by (simp add: u_def power_int_diff)
  have hi: "(2::rat) powi (binade x + 1) = of_int (2 ^ 53) * u"
    by (simp add: u_def power_int_diff power_int_add)
  have "of_int (2 ^ 52) \<le> x / u" using B(1) lo u by (simp add: pos_le_divide_eq)
  then have "round_half_even (of_int (2 ^ 52)) \<le> round_half_even (x / u)" by (rule rhe_mono)
  then have "(of_int (2 ^ 52) :: rat) \<le> of_int (round_half_even (x / u))"
    unfolding rhe_of_int by (simp only: of_int_le_iff)
  then show "2 powi binade x \<le> b64_nearest x"
    unfolding n lo using u by (simp only: mult_le_cancel_right_pos)
  have "x / u \<le> of_int (2 ^ 53)" using B(2) hi u by (simp add: pos_divide_le_eq)
  then have "round_half_even (x / u) \<le> round_half_even (of_int (2 ^ 53))" by (rule rhe_mono)
  then have "(of_int (round_half_even (x / u)) :: rat) \<le> of_int (2 ^ 53)"
    unfolding rhe_of_int by (simp only: of_int_le_iff)
  then show "b64_nearest x \<le> 2 powi (binade x + 1)"
    unfolding n hi using u by (simp only: mult_le_cancel_right_pos)
qed

lemma b64_nearest_subnormal:
  assumes "0 < x" "binade x < - 1022"
  shows "0 \<le> b64_nearest x" "b64_nearest x \<le> 2 powi (- 1022)"
proof -
  define u :: rat where "u = 2 powi (- 1074)"
  have u: "0 < u" by (simp add: u_def)
  have n: "b64_nearest x = of_int (round_half_even (x / u)) * u"
    using assms(2) by (simp add: b64_nearest_def u_def max_def Let_def)
  have hi: "(2::rat) powi (- 1022) = of_int (2 ^ 52) * u"
    by (simp add: u_def power_int_def power_add[symmetric] field_simps)
  have "binade x + 1 \<le> - 1022" using assms(2) by simp
  then have "(2::rat) powi (binade x + 1) \<le> 2 powi (- 1022)"
    by (intro power_int_increasing) simp_all
  then have "x \<le> 2 powi (- 1022)" using binade_bounds(2)[OF assms(1)] by simp
  then have "x / u \<le> of_int (2 ^ 52)" using hi u by (simp add: pos_divide_le_eq)
  then have "round_half_even (x / u) \<le> round_half_even (of_int (2 ^ 52))" by (rule rhe_mono)
  then have "(of_int (round_half_even (x / u)) :: rat) \<le> of_int (2 ^ 52)"
    unfolding rhe_of_int by (simp only: of_int_le_iff)
  then show "b64_nearest x \<le> 2 powi (- 1022)"
    unfolding n hi using u by (simp only: mult_le_cancel_right_pos)
  have "0 \<le> x / u" using assms(1) u by simp
  then have "round_half_even 0 \<le> round_half_even (x / u)" by (rule rhe_mono)
  then have "0 \<le> round_half_even (x / u)" using rhe_of_int[of 0] by simp
  then show "0 \<le> b64_nearest x" unfolding n using u by simp
qed


lemma b64_nearest_mono:
  assumes "0 < x" "x \<le> y"
  shows "b64_nearest x \<le> b64_nearest y"
proof -
  have y: "0 < y" using assms by simp
  define ex where "ex = max (binade x) (- 1022)"
  define ey where "ey = max (binade y) (- 1022)"
  have le: "ex \<le> ey" using binade_mono[OF assms] by (simp add: ex_def ey_def)
  show ?thesis
  proof (cases "ex = ey")
    case True
    define u :: rat where "u = 2 powi (ey - 52)"
    have u: "0 < u" by (simp add: u_def)
    have nx: "b64_nearest x = of_int (round_half_even (x / u)) * u"
      using True by (simp add: b64_nearest_def u_def ex_def ey_def Let_def)
    have ny: "b64_nearest y = of_int (round_half_even (y / u)) * u"
      by (simp add: b64_nearest_def u_def ey_def Let_def)
    have "x / u \<le> y / u" using assms(2) u by (simp add: divide_right_mono)
    then have "round_half_even (x / u) \<le> round_half_even (y / u)" by (rule rhe_mono)
    then have "(of_int (round_half_even (x / u)) :: rat) \<le> of_int (round_half_even (y / u))"
      by (simp only: of_int_le_iff)
    then show ?thesis unfolding nx ny using u by (simp only: mult_le_cancel_right_pos)
  next
    case False
    then have lt: "ex < ey" using le by simp
    then have ynorm: "- 1022 \<le> binade y" and ey: "ey = binade y"
      by (auto simp: ex_def ey_def max_def split: if_splits)
    have "b64_nearest x \<le> 2 powi (ex + 1)"
    proof (cases "binade x < - 1022")
      case True
      then have "ex = - 1022" by (simp add: ex_def)
      moreover have "(2::rat) powi (- 1022) \<le> 2 powi (- 1022 + 1)"
        by (intro power_int_increasing) simp_all
      ultimately show ?thesis using b64_nearest_subnormal(2)[OF assms(1) True] by simp
    next
      case False
      then have "ex = binade x" by (simp add: ex_def)
      then show ?thesis using b64_nearest_normal(2)[OF assms(1)] False by simp
    qed
    also have "(2::rat) powi (ex + 1) \<le> 2 powi ey"
      using lt by (intro power_int_increasing) simp_all
    also have "\<dots> \<le> b64_nearest y" using b64_nearest_normal(1)[OF y ynorm] ey by simp
    finally show ?thesis .
  qed
qed

lemma b64_nearest_nonneg: "0 < x \<Longrightarrow> 0 \<le> b64_nearest x"
  by (simp add: b64_nearest_def Let_def rhe_mono[of 0 "x / u" for u, unfolded rhe_of_int[of 0, simplified]]
        zero_le_mult_iff)

lemma b64_nearest_of_int:
  assumes "0 < k" "k < 2 ^ 53"
  shows "b64_nearest (of_int k) = of_int k"
proof -
  define x :: rat where "x = of_int k"
  have x: "0 < x" using assms(1) by (simp add: x_def)
  note B = binade_bounds[OF x]
  have "(1::rat) \<le> x" using assms(1) by (simp add: x_def)
  then have "(2::rat) powi 0 < 2 powi (binade x + 1)" using B(2) by simp
  then have lo: "0 \<le> binade x"
    using power_int_increasing[of "binade x + 1" 0 "2::rat"] by (cases "0 \<le> binade x") auto
  have "x < of_int (2 ^ 53)" using assms(2) unfolding x_def by (simp only: of_int_less_iff)
  then have "(2::rat) powi binade x < 2 powi 53" using B(1) by simp
  then have hi: "binade x \<le> 52"
    using power_int_increasing[of 53 "binade x" "2::rat"] by (cases "binade x \<le> 52") auto
  define j where "j = nat (52 - binade x)"
  have u: "(2::rat) powi (max (binade x) (- 1022) - 52) = 1 / 2 ^ j"
    using lo hi by (simp add: j_def max_def power_int_def field_simps)
  have n: "b64_nearest x = of_int (round_half_even (x / (1 / 2 ^ j))) * (1 / 2 ^ j)"
    by (simp only: b64_nearest_def Let_def u)
  have "x / (1 / 2 ^ j) = of_int (k * 2 ^ j)" by (simp add: x_def)
  then have "round_half_even (x / (1 / 2 ^ j)) = k * 2 ^ j" by (simp only: rhe_of_int)
  then have "b64_nearest x = of_int (k * 2 ^ j) * (1 / 2 ^ j)" by (simp only: n)
  also have "\<dots> = x" by (simp add: x_def)
  finally show ?thesis by (simp only: x_def)
qed

lemma b64_round_of_int:
  assumes "0 \<le> k" "k < 2 ^ 53"
  shows "b64_round (of_int k) = Finite (of_int k)"
proof (cases "k = 0")
  case True
  then show ?thesis by (simp add: b64_round_def)
next
  case False
  then have k: "0 < k" using assms(1) by simp
  have "(of_int k :: rat) < of_int (2 ^ 53)" using assms(2) by (simp only: of_int_less_iff)
  also have "\<dots> \<le> 2 powi 1024" by (simp add: power_int_def)
  finally have "\<not> 2 powi 1024 \<le> (of_int k :: rat)" by simp
  then show ?thesis using k by (simp add: b64_round_def b64_nearest_of_int[OF k assms(2)])
qed

text \<open>Rounding is monotone on the non-negative rationals.\<close>

lemma b64_round_mono:
  assumes "0 \<le> x" "x \<le> y" "b64_round x = Finite r" "b64_round y = Finite s"
  shows "r \<le> s"
proof (cases "x = 0")
  case True
  then have "r = 0" using assms(3) by (simp add: b64_round_def)
  moreover have "0 \<le> s"
    using assms(1,2,4) b64_nearest_nonneg[of y]
    by (cases "y = 0") (auto simp: b64_round_def Let_def split: if_splits)
  ultimately show ?thesis by simp
next
  case False
  then have x: "0 < x" using assms(1) by simp
  then have y: "0 < y" using assms(2) by simp
  have "r = b64_nearest x" using assms(3) x by (auto simp: b64_round_def Let_def split: if_splits)
  moreover have "s = b64_nearest y" using assms(4) y by (auto simp: b64_round_def Let_def split: if_splits)
  ultimately show ?thesis using b64_nearest_mono[OF x assms(2)] by simp
qed

lemma b64_round_bounded:
  assumes "0 \<le> x" "x \<le> of_int k" "k < 2 ^ 53"
  shows "\<exists>r. b64_round x = Finite r \<and> 0 \<le> r \<and> r \<le> of_int k"
proof (cases "x = 0")
  case True
  then show ?thesis using assms by (simp add: b64_round_def)
next
  case False
  then have x: "0 < x" using assms(1) by simp
  then have "(0::rat) < of_int k" using assms(2) by simp
  then have k: "0 < k" by simp
  have "b64_nearest x \<le> b64_nearest (of_int k)" using x assms(2) by (rule b64_nearest_mono)
  then have le: "b64_nearest x \<le> of_int k" by (simp add: b64_nearest_of_int[OF k assms(3)])
  have "(of_int k :: rat) < of_int (2 ^ 53)" using assms(3) by (simp only: of_int_less_iff)
  also have "\<dots> \<le> 2 powi 1024" by (simp add: power_int_def)
  finally have "\<not> 2 powi 1024 \<le> b64_nearest x" using le by simp
  then show ?thesis using x le b64_nearest_nonneg[OF x] by (simp add: b64_round_def)
qed


lemma b64_nearest_upper:
  assumes "0 < x" "x < 2 powi 49"
  shows "b64_nearest x \<le> x + 1 / 32"
proof -
  define e where "e = max (binade x) (- 1022)"
  define u :: rat where "u = 2 powi (e - 52)"
  have u: "0 < u" by (simp add: u_def)
  have "(2::rat) powi binade x < 2 powi 49" using binade_bounds(1)[OF assms(1)] assms(2) by simp
  then have "binade x \<le> 48"
    using power_int_increasing[of 49 "binade x" "2::rat"] by (cases "binade x \<le> 48") auto
  then have "e - 52 \<le> - 4" by (simp add: e_def)
  then have "u \<le> 2 powi (- 4)" unfolding u_def by (intro power_int_increasing) simp_all
  moreover have "(2::rat) powi (- 4) = 1 / 16" by (simp add: power_int_minus)
  ultimately have u16: "u \<le> 1 / 16" by simp
  have "b64_nearest x = of_int (round_half_even (x / u)) * u"
    by (simp add: b64_nearest_def Let_def u_def e_def)
  also have "\<dots> \<le> (x / u + 1 / 2) * u"
    using rhe_upper[of "x / u"] u by (simp only: mult_le_cancel_right_pos)
  also have "\<dots> = x + u / 2" using u by (simp add: field_simps)
  also have "\<dots> \<le> x + 1 / 32" using u16 by simp
  finally show ?thesis .
qed

text \<open>For an integer percentage, dividing by ten as floats and truncating is integer
  division: no rounding crosses a whole number.\<close>

lemma int_tenth:
  assumes "0 \<le> n" "n < 2 ^ 50"
  shows "py_int (b64_round (of_int n / 10)) = Inr (n div 10)"
proof (cases "n = 0")
  case True
  then show ?thesis by (simp add: b64_round_def)
next
  case False
  define k where "k = n div 10"
  define x :: rat where "x = of_int n / 10"
  have x: "0 < x" using assms(1) False by (simp add: x_def)
  have k0: "0 \<le> k" using assms(1) by (simp add: k_def)
  have "10 * k \<le> n" "n \<le> 10 * k + 9" unfolding k_def by presburger+
  then have "(of_int (10 * k) :: rat) \<le> of_int n" "(of_int n :: rat) \<le> of_int (10 * k + 9)"
    by (simp_all only: of_int_le_iff)
  then have lo: "of_int k \<le> x" and hi: "x \<le> of_int k + 9 / 10" by (simp_all add: x_def)
  have "(of_int n :: rat) < of_int (2 ^ 50)" using assms(2) by (simp only: of_int_less_iff)
  then have "x < 2 powi 49" by (simp add: x_def power_int_def)
  note up = b64_nearest_upper[OF x this]
  have k53: "k < 2 ^ 53" using assms unfolding k_def by simp
  have ge: "of_int k \<le> b64_nearest x"
  proof (cases "k = 0")
    case True
    then show ?thesis using b64_nearest_nonneg[OF x] by simp
  next
    case False
    then have kp: "0 < k" using k0 by simp
    then have "(0::rat) < of_int k" by simp
    from b64_nearest_mono[OF this lo] show ?thesis by (simp add: b64_nearest_of_int[OF kp k53])
  qed
  have lt: "b64_nearest x < of_int k + 1" using up hi by simp
  have fl: "\<lfloor>b64_nearest x\<rfloor> = k" using ge lt by (simp add: floor_unique)
  have "(of_int k + 1 :: rat) = of_int (k + 1)" by simp
  also have "\<dots> \<le> of_int (2 ^ 53)" using k53 by (simp only: of_int_le_iff)
  also have "\<dots> \<le> (2::rat) powi 1024" by (simp add: power_int_def)
  finally have "\<not> 2 powi 1024 \<le> b64_nearest x" using lt by simp
  then have "b64_round x = Finite (b64_nearest x)" using x by (simp add: b64_round_def)
  then show ?thesis using fl b64_nearest_nonneg[OF x] by (simp add: x_def k_def)
qed






subsection \<open>Rounding next to 300\<close>





section \<open>Properties of the progress bar\<close>

lemmas float_eval =
  percent_value_def percent_token_def py_float_def strip_chars_def split_head_def
  read_decimal_def read_exponent_def is_digit_def digit_val_def digits_val_def lower_ascii_def
  float_space_def

lemma b64_round_numeral:
  "numeral w < (2::int) ^ 53 \<Longrightarrow> b64_round (numeral w) = Finite (numeral w)"
  using b64_round_of_int[of "numeral w"] by simp

lemma percent_value_bad: "py_float (percent_token ''bad'') = Inl ValueError"
  by (simp add: float_eval)

lemma percent_value_150: "percent_value ''150%'' = Finite (of_int 150)"
  by (simp add: float_eval b64_round_numeral)

lemma percent_value_45: "percent_value '' 45.3%'' = Finite (of_int 45)"
  by (simp add: float_eval b64_round_numeral)

lemma count_list_ustr: "count_list (ustr s) (U n) = 0"
  by (induction s) (simp_all add: ustr_def)

lemma count_list_replicate: "count_list (replicate n x) y = (if x = y then n else 0)"
  by (induction n) auto

lemma repeat_small: "- 1000 \<le> n \<Longrightarrow> n \<le> 1000 \<Longrightarrow> repeat c n = Inr (replicate (nat n) c)"
  by (simp add: repeat_def)

lemma segments_bar:
  "filled_bars s = Inr f \<Longrightarrow> 0 \<le> f \<Longrightarrow> f \<le> 100 \<Longrightarrow>
   segments (create_progress_bar s) = Some (nat f, nat (10 - f))"
  by (simp add: create_progress_bar_def segments_def repeat_small count_list_ustr[unfolded ustr_def]
      ustr_def count_list_replicate blue_square_def white_square_def)

lemma create_progress_bar_at:
  "filled_bars s = Inr f \<Longrightarrow> 0 \<le> f \<Longrightarrow> f \<le> 100 \<Longrightarrow>
   create_progress_bar s =
     Inr (ustr ''`'' @ replicate (nat f) blue_square @ replicate (nat (10 - f)) white_square
          @ ustr ''` '' @ ustr s)"
  by (simp add: create_progress_bar_def repeat_small)

lemma filled_bars_int:
  assumes "percent_value s = Finite (of_int n)" "0 \<le> n" "n < 2 ^ 50"
  shows "filled_bars s = Inr (n div 10)"
  using int_tenth[OF assms(2,3)] assms(1) by (simp add: filled_bars_def)

lemma filled_bars_malformed:
  assumes "py_float (percent_token s) = Inl ValueError"
  shows "filled_bars s = Inr 0"
  using assms by (simp add: filled_bars_def percent_value_def b64_round_def)

lemma create_progress_bar_bad:
  "create_progress_bar ''bad'' = Inr (ustr ''`'' @ replicate 10 white_square @ ustr ''` bad'')"
  using create_progress_bar_at[OF filled_bars_malformed[OF percent_value_bad]] by (simp add: ustr_def)

text \<open>The texts \<open>nan\<close> and \<open>inf\<close> are floats to \<open>float\<close>; it is \<open>int\<close>, outside the \<open>try\<close>, that
  raises on them.\<close>

lemma create_progress_bar_nan_inf:
  "create_progress_bar ''nan%'' = Inl ValueError"
  "create_progress_bar ''inf%'' = Inl OverflowError"
  by (simp_all add: create_progress_bar_def filled_bars_def float_eval)

text \<open>A count beyond the index type, such as \<open>10 ^ 22\<close>, raises.\<close>

lemma repeat_overflow: "repeat c (10 ^ 22) = Inl OverflowError"
  by (simp add: repeat_def)

lemma percent_value_20: "percent_value ''20%'' = Finite 20"
  by (simp add: float_eval b64_round_numeral)

lemma percent_value_55: "percent_value ''55.5%'' = Finite 55"
  by (simp add: float_eval b64_round_numeral)

text \<open>
  C3, as the code has it. When the text before the first point of the percent string
  reads as a whole number \<open>n\<close> from 0 to 100, the bar has ten segments, \<open>n div 10\<close> of them
  filled. When \<open>float\<close> rejects that text with \<open>ValueError\<close>, the bar is the one of 0%:
  no filled segment and ten empty ones. The count is not clamped: \<open>''150%''\<close> gives
  fifteen filled segments.
\<close>

theorem create_progress_bar_segments:
  "(percent_value s = Finite (of_int n) \<and> 0 \<le> n \<and> n \<le> 100 \<longrightarrow>
      create_progress_bar s =
        Inr (ustr ''`'' @ replicate (nat (n div 10)) blue_square
             @ replicate (10 - nat (n div 10)) white_square @ ustr ''` '' @ ustr s)
      \<and> segments (create_progress_bar s) = Some (nat (n div 10), 10 - nat (n div 10)))
   \<and> (py_float (percent_token s) = Inl ValueError \<longrightarrow>
      create_progress_bar s = Inr (ustr ''`'' @ replicate 10 white_square @ ustr ''` '' @ ustr s)
      \<and> segments (create_progress_bar s) = Some (0, 10))"
proof (intro conjI impI)
  assume a: "percent_value s = Finite (of_int n) \<and> 0 \<le> n \<and> n \<le> 100"
  then have f: "filled_bars s = Inr (n div 10)" by (intro filled_bars_int) simp_all
  have "0 \<le> n" using a by blast
  then have lo: "0 \<le> n div 10" by (simp add: pos_imp_zdiv_nonneg_iff)
  have "n \<le> 100" using a by blast
  then have hi: "n div 10 \<le> 100" by presburger
  have "nat (10 - n div 10) = 10 - nat (n div 10)" using lo by (simp add: nat_diff_distrib')
  then show "create_progress_bar s =
        Inr (ustr ''`'' @ replicate (nat (n div 10)) blue_square
             @ replicate (10 - nat (n div 10)) white_square @ ustr ''` '' @ ustr s)"
    and "segments (create_progress_bar s) = Some (nat (n div 10), 10 - nat (n div 10))"
    using create_progress_bar_at[OF f lo hi] segments_bar[OF f lo hi] by simp_all
next
  assume "py_float (percent_token s) = Inl ValueError"
  then have f: "filled_bars s = Inr 0" by (rule filled_bars_malformed)
  show "create_progress_bar s = Inr (ustr ''`'' @ replicate 10 white_square @ ustr ''` '' @ ustr s)"
    and "segments (create_progress_bar s) = Some (0, 10)"
    using create_progress_bar_at[OF f] segments_bar[OF f] by simp_all
qed

text \<open>The hook's \<open>'' 45.3%''\<close> gives four filled and six empty segments, \<open>''bad''\<close> the
  bar of 0%.\<close>

theorem create_progress_bar_segments_witness:
  "create_progress_bar '' 45.3%'' =
     Inr (ustr ''`'' @ replicate 4 blue_square @ replicate 6 white_square @ ustr ''`  45.3%'')
   \<and> segments (create_progress_bar '' 45.3%'') = Some (4, 6)
   \<and> create_progress_bar ''bad'' = Inr (ustr ''`'' @ replicate 10 white_square @ ustr ''` bad'')
   \<and> segments (create_progress_bar ''bad'') = Some (0, 10)"
  using create_progress_bar_segments[of "'' 45.3%''" 45] create_progress_bar_segments[of "''bad''" 0]
    percent_value_45 percent_value_bad
  by (simp add: ustr_def segments_def count_list_replicate blue_square_def white_square_def)

text \<open>At \<open>''150%''\<close> the bar has fifteen filled segments and no empty one, where a
  clamped count would give ten filled ones.\<close>

theorem create_progress_bar_unclamped:
  "segments (create_progress_bar ''150%'') = Some (15, 0)
   \<and> segments (create_progress_bar ''150%'') \<noteq> Some (spec_segments 150)"
  using segments_bar[OF filled_bars_int[OF percent_value_150]] by (simp add: spec_segments_def)

text \<open>
  C4. The bar is monotone in the percent value: of two percent strings whose values,
  as \<open>create_progress_bar\<close> reads them, lie between 0 and 100, the one with the larger
  value has at least as many filled segments. The string \<open>''bad''\<close> gives the bar of 0%.
\<close>

theorem create_progress_bar_monotone:
  "(percent_value s1 = Finite v1 \<and> percent_value s2 = Finite v2
      \<and> 0 \<le> v1 \<and> v1 \<le> v2 \<and> v2 \<le> 100 \<longrightarrow>
      (\<exists>f1 e1 f2 e2. segments (create_progress_bar s1) = Some (f1, e1)
         \<and> segments (create_progress_bar s2) = Some (f2, e2) \<and> f1 \<le> f2))
   \<and> create_progress_bar ''bad'' = Inr (ustr ''`'' @ replicate 10 white_square @ ustr ''` bad'')"
proof (intro conjI impI)
  assume a: "percent_value s1 = Finite v1 \<and> percent_value s2 = Finite v2
      \<and> 0 \<le> v1 \<and> v1 \<le> v2 \<and> v2 \<le> 100"
  have le: "v1 / 10 \<le> v2 / 10" and nn: "0 \<le> v1 / 10" "0 \<le> v2 / 10"
    and up: "v1 / 10 \<le> of_int 10" "v2 / 10 \<le> of_int 10" using a by simp_all
  obtain r1 where r1: "b64_round (v1 / 10) = Finite r1" "0 \<le> r1" "r1 \<le> 10"
    using b64_round_bounded[OF nn(1) up(1)] by auto
  obtain r2 where r2: "b64_round (v2 / 10) = Finite r2" "0 \<le> r2" "r2 \<le> 10"
    using b64_round_bounded[OF nn(2) up(2)] by auto
  have b1: "0 \<le> \<lfloor>r1\<rfloor>" "\<lfloor>r1\<rfloor> \<le> 100" using r1(2,3) by (simp_all add: floor_le_iff)
  have b2: "0 \<le> \<lfloor>r2\<rfloor>" "\<lfloor>r2\<rfloor> \<le> 100" using r2(2,3) by (simp_all add: floor_le_iff)
  have "r1 \<le> r2" using b64_round_mono[OF nn(1) le r1(1) r2(1)] .
  then have fl: "\<lfloor>r1\<rfloor> \<le> \<lfloor>r2\<rfloor>" by (rule floor_mono)
  have f1: "filled_bars s1 = Inr \<lfloor>r1\<rfloor>" and f2: "filled_bars s2 = Inr \<lfloor>r2\<rfloor>"
    using a r1 r2 by (simp_all add: filled_bars_def)
  show "\<exists>f1 e1 f2 e2. segments (create_progress_bar s1) = Some (f1, e1)
         \<and> segments (create_progress_bar s2) = Some (f2, e2) \<and> f1 \<le> f2"
    using segments_bar[OF f1 b1] segments_bar[OF f2 b2] fl by simp
next
  show "create_progress_bar ''bad'' = Inr (ustr ''`'' @ replicate 10 white_square @ ustr ''` bad'')"
    by (rule create_progress_bar_bad)
qed

text \<open>\<open>''20%''\<close> and \<open>''55.5%''\<close>: two and five filled segments.\<close>

theorem create_progress_bar_monotone_witness:
  "percent_value ''20%'' = Finite 20 \<and> percent_value ''55.5%'' = Finite 55
   \<and> (\<exists>f1 e1 f2 e2. segments (create_progress_bar ''20%'') = Some (f1, e1)
         \<and> segments (create_progress_bar ''55.5%'') = Some (f2, e2) \<and> f1 \<le> f2)"
  using create_progress_bar_monotone[of "''20%''" 20 "''55.5%''" 55]
    percent_value_20 percent_value_55
  by simp

section \<open>Properties of the handlers\<close>

lemma emit_simps [simp]:
  "user_data (emit c st) = user_data st"
  "download_progress (emit c st) = download_progress st"
  "calls (emit c st) = calls st @ [c]"
  by (simp_all add: emit_def)

subsection \<open>Accepting a link\<close>

lemmas url_eval =
  py_strip_def strip_chars_def unicode_space_def youtube_match_def after_any_def
  strip_prefix_def List.map_filter_def

lemma not_a_url: "\<not> youtube_match (py_strip ''not-a-url'')"
  by (simp add: url_eval)

lemma watch_url: "youtube_match (py_strip ''https://youtube.com/watch?v=abc'')"
  by (simp add: url_eval)

lemma py_strip_watch_url: "py_strip ''https://youtube.com/watch?v=abc'' = ''https://youtube.com/watch?v=abc''"
  by (simp add: url_eval)

text \<open>
  C9. A text that the pattern does not match is answered with the invalid-link message
  and changes neither dictionary: no session is created. A text that matches creates
  the session of the chat, replacing any earlier one, and the format buttons are sent.
\<close>

theorem handle_url_validation:
  "(\<not> youtube_match (py_strip (m_text upd)) \<longrightarrow>
      handle_url r upd st =
        (case r of Inl e \<Rightarrow> Some e | Inr mid \<Rightarrow> None,
         st\<lparr>calls := calls st @ [ReplyText (m_chat_id upd) InvalidUrlText]\<rparr>))
   \<and> (youtube_match (py_strip (m_text upd)) \<longrightarrow>
      user_data (snd (handle_url r upd st)) =
        (user_data st)(m_chat_id upd \<mapsto>
           \<lparr>url = py_strip (m_text upd), user_id = m_user_id upd, chat_id = m_chat_id upd,
            format_message_id = (case r of Inl e \<Rightarrow> None | Inr mid \<Rightarrow> Some mid),
            format = None, progress_message_id = None, title = None\<rparr>)
      \<and> calls (snd (handle_url r upd st)) = calls st @ [ReplyText (m_chat_id upd) ChooseFormatText]
      \<and> download_progress (snd (handle_url r upd st)) = download_progress st)"
  by (cases r) (simp_all add: handle_url_def Let_def emit_def)

text \<open>\<open>not-a-url\<close> is answered and leaves the empty table empty; a watch link creates the
  session of chat 7.\<close>

theorem handle_url_validation_witness:
  "handle_url (Inr 10) \<lparr>m_text = ''not-a-url'', m_chat_id = 7, m_user_id = 3\<rparr>
      \<lparr>user_data = Map.empty, download_progress = [], calls = []\<rparr>
     = (None, \<lparr>user_data = Map.empty, download_progress = [],
               calls = [ReplyText 7 InvalidUrlText]\<rparr>)
   \<and> user_data (snd (handle_url (Inr 10)
         \<lparr>m_text = ''https://youtube.com/watch?v=abc'', m_chat_id = 7, m_user_id = 3\<rparr>
         \<lparr>user_data = Map.empty, download_progress = [], calls = []\<rparr>))
     = [7 \<mapsto> \<lparr>url = ''https://youtube.com/watch?v=abc'', user_id = 3, chat_id = 7,
               format_message_id = Some 10, format = None, progress_message_id = None,
               title = None\<rparr>]
   \<and> calls (snd (handle_url (Inr 10)
         \<lparr>m_text = ''https://youtube.com/watch?v=abc'', m_chat_id = 7, m_user_id = 3\<rparr>
         \<lparr>user_data = Map.empty, download_progress = [], calls = []\<rparr>))
     = [ReplyText 7 ChooseFormatText]"
  using handle_url_validation[of "\<lparr>m_text = ''not-a-url'', m_chat_id = 7, m_user_id = 3\<rparr>"
          "Inr 10" "\<lparr>user_data = Map.empty, download_progress = [], calls = []\<rparr>"]
    handle_url_validation[of "\<lparr>m_text = ''https://youtube.com/watch?v=abc'', m_chat_id = 7, m_user_id = 3\<rparr>"
          "Inr 10" "\<lparr>user_data = Map.empty, download_progress = [], calls = []\<rparr>"]
    not_a_url watch_url py_strip_watch_url
  by simp

subsection \<open>A format button without a session\<close>

text \<open>
  C6. When the chat has no session, a format button is answered with the expired-session
  text and nothing else happens: no status message is sent, the downloader is not called,
  and both dictionaries stay as they are.
\<close>

theorem button_handler_no_session:
  assumes "user_data st (q_chat_id query) = None"
  shows "user_data (snd (button_handler env query st)) = user_data st
         \<and> download_progress (snd (button_handler env query st)) = download_progress st
         \<and> calls (snd (button_handler env query st)) =
             calls st @ AnswerQuery #
               (if r_answer env = None \<and> startswith (q_data query) ''format_''
                then [EditQueryMessage (q_chat_id query) SessionExpiredText] else [])
         \<and> (r_answer env = None \<and> startswith (q_data query) ''format_'' \<longrightarrow>
              fst (button_handler env query st) = r_edit_expired env)"
  using assms by (simp add: button_handler_def Let_def split: option.splits)

text \<open>The button \<open>format_mp4\<close> pressed in chat 7 on an empty table.\<close>

theorem button_handler_no_session_witness:
  "user_data (snd (button_handler
       \<lparr>r_answer = None, r_edit_expired = None, r_reply_init = Inr 11,
        r_job = smooth_env ''T.mp4'' 5000\<rparr>
       \<lparr>q_chat_id = 7, q_data = ''format_mp4''\<rparr>
       \<lparr>user_data = Map.empty, download_progress = [], calls = []\<rparr>)) = Map.empty
   \<and> download_progress (snd (button_handler
       \<lparr>r_answer = None, r_edit_expired = None, r_reply_init = Inr 11,
        r_job = smooth_env ''T.mp4'' 5000\<rparr>
       \<lparr>q_chat_id = 7, q_data = ''format_mp4''\<rparr>
       \<lparr>user_data = Map.empty, download_progress = [], calls = []\<rparr>)) = []
   \<and> calls (snd (button_handler
       \<lparr>r_answer = None, r_edit_expired = None, r_reply_init = Inr 11,
        r_job = smooth_env ''T.mp4'' 5000\<rparr>
       \<lparr>q_chat_id = 7, q_data = ''format_mp4''\<rparr>
       \<lparr>user_data = Map.empty, download_progress = [], calls = []\<rparr>))
     = [AnswerQuery, EditQueryMessage 7 SessionExpiredText]"
  using button_handler_no_session[of "\<lparr>user_data = Map.empty, download_progress = [], calls = []\<rparr>"
          "\<lparr>q_chat_id = 7, q_data = ''format_mp4''\<rparr>"
          "\<lparr>r_answer = None, r_edit_expired = None, r_reply_init = Inr 11,
            r_job = smooth_env ''T.mp4'' 5000\<rparr>"]
  by (simp add: startswith_def)

subsection \<open>What a download leaves behind\<close>

lemma hooks_user_data [simp]:
  "user_data (foldl (\<lambda>s d. progress_hook cid d s) st hs) = user_data st"
  by (induction hs arbitrary: st) (simp_all add: progress_hook_def)

lemma hooks_calls [simp]:
  "calls (foldl (\<lambda>s d. progress_hook cid d s) st hs) = calls st"
  by (induction hs arbitrary: st) (simp_all add: progress_hook_def)

lemma upload_stage_user_data:
  "upload_stage env cid f fname sz meta ttl st = (r, st') \<Longrightarrow> user_data st' = user_data st"
  by (auto simp add: upload_stage_def Let_def split: option.splits if_splits)

lemma deliver_stage_user_data:
  "deliver_stage env cid f pmid meta ttl st = (r, st') \<Longrightarrow> user_data st' = user_data st"
  by (auto simp add: deliver_stage_def Let_def split: option.splits prod.splits sum.splits if_splits
      dest: upload_stage_user_data)

lemma fetch_stage_user_data:
  "user_data (snd (fetch_stage env cid sess f pmid st)) = user_data st
   \<or> (\<exists>t. user_data (snd (fetch_stage env cid sess f pmid st)) =
            (user_data st)(cid \<mapsto> sess\<lparr>title := Some t\<rparr>))"
  by (auto simp add: fetch_stage_def Let_def split: option.splits sum.splits)

lemma job_body_user_data:
  "user_data (snd (job_body env cid st)) = user_data st
   \<or> (\<exists>sess t. user_data st cid = Some sess
         \<and> user_data (snd (job_body env cid st)) = (user_data st)(cid \<mapsto> sess\<lparr>title := Some t\<rparr>))"
proof (cases "user_data st cid")
  case None
  then show ?thesis by (simp add: job_body_def)
next
  case (Some sess)
  show ?thesis
  proof (cases "format sess")
    case None
    then show ?thesis using Some by (simp add: job_body_def)
  next
    case f: (Some format_type)
    show ?thesis
    proof (cases "progress_message_id sess")
      case None
      then show ?thesis using Some f by (simp add: job_body_def)
    next
      case p: (Some pmid)
      define st1 where "st1 = st\<lparr>download_progress := AList.update cid
                                 \<lparr>status = ''starting'', percent = ''0%'', speed = ''N/A'',
                                  eta = ''N/A'', last_update = t_start env\<rparr> (download_progress st)\<rparr>"
      have u1: "user_data st1 = user_data st" by (simp add: st1_def)
      obtain r st2 where fs: "fetch_stage env cid sess format_type pmid st1 = (r, st2)"
        by (cases "fetch_stage env cid sess format_type pmid st1")
      have u2: "user_data st2 = user_data st
                \<or> (\<exists>t. user_data st2 = (user_data st)(cid \<mapsto> sess\<lparr>title := Some t\<rparr>))"
        using fetch_stage_user_data[of env cid sess format_type pmid st1] fs u1 by simp
      have "user_data (snd (job_body env cid st)) = user_data st2"
      proof (cases r)
        case (Inl e)
        then show ?thesis using Some f p fs by (simp add: job_body_def st1_def[symmetric])
      next
        case (Inr v)
        obtain meta ttl where v: "v = (meta, ttl)" by (cases v)
        obtain r3 st3 where d: "deliver_stage env cid format_type pmid meta ttl st2 = (r3, st3)"
          by (cases "deliver_stage env cid format_type pmid meta ttl st2")
        have "snd (job_body env cid st) = st3"
          using Some f p fs Inr v d by (simp add: job_body_def st1_def[symmetric])
        then show ?thesis using deliver_stage_user_data[OF d] by simp
      qed
      then show ?thesis using u2 Some by auto
    qed
  qed
qed

lemma report_error_user_data:
  "report_error env cid e st = (out, st') \<Longrightarrow> user_data st' = user_data st"
  by (auto simp add: report_error_def Let_def split: option.splits)

lemma download_media_user_data:
  "user_data (snd (download_media env cid st)) = user_data (snd (job_body env cid st))"
proof -
  obtain r st1 where j: "job_body env cid st = (r, st1)" by (cases "job_body env cid st")
  show ?thesis
  proof (cases r)
    case (Inl e)
    obtain out st2 where re: "report_error env cid e st1 = (out, st2)"
      by (cases "report_error env cid e st1")
    show ?thesis using j Inl re report_error_user_data[OF re] by (simp add: download_media_def)
  next
    case (Inr u)
    then show ?thesis using j by (simp add: download_media_def)
  qed
qed

lemma download_media_progress:
  "\<exists>dp. download_progress (snd (download_media env cid st)) = AList.delete cid dp"
  by (cases "job_body env cid st") (auto simp add: download_media_def Let_def split: sum.splits prod.splits)

lemmas job_defs =
  download_media_def job_body_def fetch_stage_def deliver_stage_def upload_stage_def
  report_error_def Let_def

lemmas job_eval =
  download_media_def job_body_def fetch_stage_def deliver_stage_def upload_stage_def
  report_error_def progress_hook_def dict_get_def endswith_def size_limit_def
  ready_state_def smooth_env_def Let_def

text \<open>A delivered audio download in chat 7: the outcome, the session and the calls.\<close>

lemma delivered_audio_run:
  "fst (download_media (smooth_env ''T.mp3'' 4000000) 7 (ready_state ''mp3'')) = None"
  "user_data (snd (download_media (smooth_env ''T.mp3'' 4000000) 7 (ready_state ''mp3''))) 7
     = Some \<lparr>url = ''https://youtu.be/abc'', user_id = 3, chat_id = 7,
             format_message_id = Some 10, format = Some ''mp3'',
             progress_message_id = Some 11, title = Some (ustr ''T'')\<rparr>"
  "calls (snd (download_media (smooth_env ''T.mp3'' 4000000) 7 (ready_state ''mp3'')))
     = [EditMessageText 7 11 StartingText, ExtractInfo ''https://youtu.be/abc'',
        Download ''https://youtu.be/abc'' ''mp3'', EditMessageText 7 11 UploadingText,
        SendAudio 7 ''T.mp3'' ([U 0x1F3B5] @ ustr '' T'') (ustr ''T''),
        DeleteMessage 7 11, SendMessage 7 (CompleteText (ustr ''T'') ''mp3'' 3)]"
  by (simp_all add: job_eval ustr_def)

text \<open>
  C2, as the code has it. Whatever way \<open>download_media\<close> ends, delivered or failed, the
  progress entry of the chat is gone afterwards. The session table is not cleared: it
  has an entry for exactly the chats it had before.
\<close>

theorem download_media_clears_progress_only:
  "map_of (download_progress (snd (download_media env cid st))) cid = None
   \<and> dom (user_data (snd (download_media env cid st))) = dom (user_data st)"
proof
  obtain dp where "download_progress (snd (download_media env cid st)) = AList.delete cid dp"
    using download_media_progress by blast
  then show "map_of (download_progress (snd (download_media env cid st))) cid = None"
    by (simp add: delete_conv')
  show "dom (user_data (snd (download_media env cid st))) = dom (user_data st)"
    using job_body_user_data[of env cid st]
    by (auto simp add: download_media_user_data split: if_splits)
qed

text \<open>After a delivered audio download in chat 7 the progress entry is gone and the
  table still has the session of chat 7.\<close>

theorem download_media_clears_progress_only_witness:
  "map_of (download_progress (snd (download_media (smooth_env ''T.mp3'' 4000000) 7
      (ready_state ''mp3'')))) 7 = None
   \<and> dom (user_data (snd (download_media (smooth_env ''T.mp3'' 4000000) 7 (ready_state ''mp3''))))
       = {7}"
  using download_media_clears_progress_only[of "smooth_env ''T.mp3'' 4000000" 7 "ready_state ''mp3''"]
  by (simp add: ready_state_def)

text \<open>The delivered download returns normally and the session of chat 7 is still in
  the table.\<close>

theorem delivered_audio_keeps_session:
  "fst (download_media (smooth_env ''T.mp3'' 4000000) 7 (ready_state ''mp3'')) = None
   \<and> user_data (snd (download_media (smooth_env ''T.mp3'' 4000000) 7 (ready_state ''mp3''))) 7
       \<noteq> None"
  by (simp add: job_eval)

subsection \<open>A video above the size limit\<close>

text \<open>
  C7, as the code has it. When the chosen format is not \<open>mp3\<close> and the downloaded file is
  larger than 2000 * 1024 * 1024 bytes (so also when it is larger than 2 GiB), no video
  is sent: after the uploading notice the status message is edited to the error text,
  which carries the cause cut to 100 characters, and sent as a new message when that
  edit fails. The progress entry is removed; the session stays in the table, now with
  the title.
\<close>

theorem oversize_video_fails:
  assumes "user_data st cid = Some sess"
    and "format sess = Some format_type"
    and "format_type \<noteq> ''mp3''"
    and "progress_message_id sess = Some pmid"
    and "r_edit_starting env = None"
    and "r_extract env = Inr meta"
    and "r_download env = None"
    and "find (\<lambda>f. endswith (fst f) ''.mp4'' \<or> endswith (fst f) ''.mp3'') (r_listdir env)
           = Some (fname, sz)"
    and "size_limit < sz"
    and "r_edit_uploading env = None"
  shows "calls (snd (download_media env cid st)) =
           calls st @
           [EditMessageText cid pmid StartingText, ExtractInfo (url sess),
            Download (url sess) format_type, EditMessageText cid pmid UploadingText,
            EditMessageText cid pmid
              (Plain (error_msg (ustr ''Upload to Telegram failed: File too large for Telegram (2GB limit).'')))]
           @ (if r_edit_error env = None then []
              else [SendMessage cid
                (Plain (error_msg (ustr ''Upload to Telegram failed: File too large for Telegram (2GB limit).'')))])
         \<and> map_of (download_progress (snd (download_media env cid st))) cid = None
         \<and> user_data (snd (download_media env cid st)) cid =
             Some (sess\<lparr>title := Some (dict_get (i_title meta) (ustr ''download''))\<rparr>)"
proof -
  have "sz \<noteq> 0" using assms(9) by simp
  then show ?thesis
    using assms by (auto simp add: job_defs delete_conv' ustr_def split: option.splits)
qed

text \<open>A file of 3,000,000,000 bytes in chat 7.\<close>

theorem oversize_video_fails_witness:
  "calls (snd (download_media (smooth_env ''T.mp4'' 3000000000) 7 (ready_state ''mp4''))) =
     [EditMessageText 7 11 StartingText, ExtractInfo ''https://youtu.be/abc'',
      Download ''https://youtu.be/abc'' ''mp4'', EditMessageText 7 11 UploadingText,
      EditMessageText 7 11
        (Plain (error_msg (ustr ''Upload to Telegram failed: File too large for Telegram (2GB limit).'')))]
   \<and> map_of (download_progress (snd (download_media (smooth_env ''T.mp4'' 3000000000) 7
         (ready_state ''mp4'')))) 7 = None
   \<and> user_data (snd (download_media (smooth_env ''T.mp4'' 3000000000) 7 (ready_state ''mp4''))) 7 =
       Some \<lparr>url = ''https://youtu.be/abc'', user_id = 3, chat_id = 7,
             format_message_id = Some 10, format = Some ''mp4'',
             progress_message_id = Some 11, title = Some (ustr ''T'')\<rparr>"
  using oversize_video_fails[of "ready_state ''mp4''" 7
      "\<lparr>url = ''https://youtu.be/abc'', user_id = 3, chat_id = 7,
        format_message_id = Some 10, format = Some ''mp4'',
        progress_message_id = Some 11, title = None\<rparr>" "''mp4''" 11
      "smooth_env ''T.mp4'' 3000000000"
      "\<lparr>i_title = Some (ustr ''T''), i_width = None, i_height = None, i_duration = Some 60\<rparr>"
      "''T.mp4''" 3000000000]
  by (simp add: ready_state_def smooth_env_def endswith_def size_limit_def dict_get_def)

text \<open>After that run the session of chat 7 is still in the table.\<close>

theorem oversize_video_keeps_session:
  "user_data (snd (download_media (smooth_env ''T.mp4'' 3000000000) 7 (ready_state ''mp4''))) 7
     \<noteq> None"
  by (simp add: job_eval)

subsection \<open>Audio is sent whatever its size\<close>

lemma upload_stage_mp3:
  "upload_stage env cid ''mp3'' fname sz meta ttl s =
     (case r_send_media env of
        None \<Rightarrow> Inr ()
      | Some e \<Rightarrow> Inl (ustr ''Upload to Telegram failed: '' @ e),
      emit (SendAudio cid fname ([U 0x1F3B5] @ ustr '' '' @ ttl) (take 64 ttl)) s)"
  by (simp add: upload_stage_def Let_def split: option.splits)

lemma upload_stage_oversize:
  "format_type \<noteq> ''mp3'' \<Longrightarrow> size_limit < sz \<Longrightarrow>
   upload_stage env cid format_type fname sz meta ttl s =
     (Inl (ustr ''Upload to Telegram failed: File too large for Telegram (2GB limit).''), s)"
  by (simp add: upload_stage_def Let_def ustr_def)

lemma fetch_stage_ok:
  assumes "r_edit_starting env = None" "r_extract env = Inr meta" "r_download env = None"
  shows "\<exists>st'. fetch_stage env cid sess format_type pmid st =
           (Inr (meta, dict_get (i_title meta) (ustr ''download'')), st')
         \<and> calls st' = calls st @ [EditMessageText cid pmid StartingText, ExtractInfo (url sess),
                                    Download (url sess) format_type]
         \<and> user_data st' =
             (user_data st)(cid \<mapsto> sess\<lparr>title := Some (dict_get (i_title meta) (ustr ''download''))\<rparr>)"
  using assms by (simp add: fetch_stage_def Let_def)

text \<open>
  C10. For the format \<open>mp3\<close>, once the download has left a file that is not empty, the
  audio is sent, whatever the size of the file: the outcome of the upload step does not
  depend on it. The size guard stands on the other branch only, where a file above the
  limit raises before anything is sent.
\<close>

theorem audio_has_no_size_check:
  assumes "user_data st cid = Some sess"
    and "format sess = Some ''mp3''"
    and "progress_message_id sess = Some pmid"
    and "r_edit_starting env = None"
    and "r_extract env = Inr meta"
    and "r_download env = None"
    and "find (\<lambda>f. endswith (fst f) ''.mp4'' \<or> endswith (fst f) ''.mp3'') (r_listdir env)
           = Some (fname, sz)"
    and "sz \<noteq> 0"
    and "r_edit_uploading env = None"
  shows "take 5 (drop (length (calls st)) (calls (snd (download_media env cid st)))) =
           [EditMessageText cid pmid StartingText, ExtractInfo (url sess),
            Download (url sess) ''mp3'', EditMessageText cid pmid UploadingText,
            SendAudio cid fname ([U 0x1F3B5] @ ustr '' '' @ dict_get (i_title meta) (ustr ''download''))
              (take 64 (dict_get (i_title meta) (ustr ''download'')))]
         \<and> upload_stage env cid ''mp3'' fname any_size meta ttl s =
             (case r_send_media env of
                None \<Rightarrow> Inr ()
              | Some e \<Rightarrow> Inl (ustr ''Upload to Telegram failed: '' @ e),
              emit (SendAudio cid fname ([U 0x1F3B5] @ ustr '' '' @ ttl) (take 64 ttl)) s)
         \<and> (format_type \<noteq> ''mp3'' \<and> size_limit < any_size \<longrightarrow>
              upload_stage env cid format_type fname any_size meta ttl s =
                (Inl (ustr ''Upload to Telegram failed: File too large for Telegram (2GB limit).''), s))"
proof -
  define ttl0 where "ttl0 = dict_get (i_title meta) (ustr ''download'')"
  define st1 where "st1 = st\<lparr>download_progress := AList.update cid
                                 \<lparr>status = ''starting'', percent = ''0%'', speed = ''N/A'',
                                  eta = ''N/A'', last_update = t_start env\<rparr> (download_progress st)\<rparr>"
  obtain st2 where f: "fetch_stage env cid sess ''mp3'' pmid st1 = (Inr (meta, ttl0), st2)"
    and c2: "calls st2 = calls st @ [EditMessageText cid pmid StartingText, ExtractInfo (url sess),
                                    Download (url sess) ''mp3'']"
    using fetch_stage_ok[OF assms(4,5,6), of cid sess "''mp3''" pmid st1]
    by (auto simp add: ttl0_def st1_def)
  define st3 where "st3 = emit (SendAudio cid fname ([U 0x1F3B5] @ ustr '' '' @ ttl0) (take 64 ttl0))
                            (emit (EditMessageText cid pmid UploadingText) st2)"
  have c3: "calls st3 = calls st @ [EditMessageText cid pmid StartingText, ExtractInfo (url sess),
       Download (url sess) ''mp3'', EditMessageText cid pmid UploadingText,
       SendAudio cid fname ([U 0x1F3B5] @ ustr '' '' @ ttl0) (take 64 ttl0)]"
    by (simp add: st3_def c2)
  have d: "\<exists>more. calls (snd (deliver_stage env cid ''mp3'' pmid meta ttl0 st2)) = calls st3 @ more"
    using assms(7,8,9)
    by (simp add: deliver_stage_def upload_stage_mp3 st3_def Let_def split: option.splits)
  have j: "job_body env cid st = deliver_stage env cid ''mp3'' pmid meta ttl0 st2"
    using assms(1,2,3) f by (simp add: job_body_def st1_def[symmetric])
  have "\<exists>more. calls (snd (download_media env cid st)) = calls st3 @ more"
  proof -
    obtain r st4 where ds: "deliver_stage env cid ''mp3'' pmid meta ttl0 st2 = (r, st4)"
      by (cases "deliver_stage env cid ''mp3'' pmid meta ttl0 st2")
    obtain more where m: "calls st4 = calls st3 @ more" using d ds by auto
    show ?thesis
      using j ds m
      by (cases r) (auto simp add: download_media_def report_error_def Let_def split: option.splits)
  qed
  then obtain more where "calls (snd (download_media env cid st)) = calls st3 @ more" by blast
  then show ?thesis by (simp add: c3 ttl0_def upload_stage_mp3 upload_stage_oversize)
qed

text \<open>An audio file of 3,000,000,000 bytes in chat 7 is sent; as a video it is not.\<close>

theorem audio_has_no_size_check_witness:
  "take 5 (drop (length (calls (ready_state ''mp3'')))
      (calls (snd (download_media (smooth_env ''T.mp3'' 3000000000) 7 (ready_state ''mp3''))))) =
     [EditMessageText 7 11 StartingText, ExtractInfo ''https://youtu.be/abc'',
      Download ''https://youtu.be/abc'' ''mp3'', EditMessageText 7 11 UploadingText,
      SendAudio 7 ''T.mp3'' ([U 0x1F3B5] @ ustr '' T'') (ustr ''T'')]
   \<and> upload_stage (smooth_env ''T.mp3'' 3000000000) 7 ''mp4'' ''T.mp3'' 3000000000
        \<lparr>i_title = Some (ustr ''T''), i_width = None, i_height = None, i_duration = Some 60\<rparr>
        (ustr ''T'') (ready_state ''mp3'') =
       (Inl (ustr ''Upload to Telegram failed: File too large for Telegram (2GB limit).''),
        ready_state ''mp3'')"
  using audio_has_no_size_check[where st = "ready_state ''mp3''" and cid = 7
      and sess = "\<lparr>url = ''https://youtu.be/abc'', user_id = 3, chat_id = 7,
        format_message_id = Some 10, format = Some ''mp3'',
        progress_message_id = Some 11, title = None\<rparr>" and pmid = 11
      and env = "smooth_env ''T.mp3'' 3000000000"
      and meta = "\<lparr>i_title = Some (ustr ''T''), i_width = None, i_height = None,
        i_duration = Some 60\<rparr>"
      and fname = "''T.mp3''" and sz = 3000000000 and any_size = 3000000000
      and format_type = "''mp4''" and ttl = "ustr ''T''" and s = "ready_state ''mp3''"]
  by (simp add: ready_state_def smooth_env_def endswith_def dict_get_def ustr_def size_limit_def)

subsection \<open>Reporting a failure\<close>

lemma job_body_fails_session:
  assumes "job_body env cid st = (Inl e, st1)"
  shows "\<exists>sess. user_data st1 cid = Some sess"
proof (cases "user_data st cid")
  case None
  then show ?thesis using assms by (simp add: job_body_def)
next
  case (Some sess)
  then show ?thesis using job_body_user_data[of env cid st] assms by auto
qed

lemma length_error_msg: "length (error_msg e) = min (length e) 100 + 89"
  by (simp add: error_msg_def ustr_def)

text \<open>
  C8. When the body of \<open>download_media\<close> raises, in the download or in the delivery, the
  text shown carries the cause cut to its first 100 characters, between a fixed heading
  and the advice to try another video or to try again later, so that it has at most 189
  characters. It is put into the status message by an edit; when that edit raises, or
  the session has no status message, it is sent as a new message.
\<close>

theorem failure_is_reported:
  assumes "job_body env cid st = (Inl e, st1)"
  shows "\<exists>sess. user_data st1 cid = Some sess
           \<and> calls (snd (download_media env cid st)) =
               calls st1 @
               (case progress_message_id sess of
                  None \<Rightarrow> [SendMessage cid (Plain (error_msg e))]
                | Some pmid \<Rightarrow>
                    EditMessageText cid pmid (Plain (error_msg e)) #
                    (if r_edit_error env = None then []
                     else [SendMessage cid (Plain (error_msg e))]))
           \<and> error_msg e =
               [cross_mark] @ ustr '' *Download/Upload Failed!*\<newline>\<newline>Reason: `'' @ take 100 e
               @ ustr ''`\<newline>\<newline>Please try a different video or try again later.''
           \<and> length (take 100 e) \<le> 100
           \<and> length (error_msg e) \<le> 189"
proof -
  obtain sess where s: "user_data st1 cid = Some sess"
    using job_body_fails_session[OF assms] by blast
  have "calls (snd (download_media env cid st)) =
               calls st1 @
               (case progress_message_id sess of
                  None \<Rightarrow> [SendMessage cid (Plain (error_msg e))]
                | Some pmid \<Rightarrow>
                    EditMessageText cid pmid (Plain (error_msg e)) #
                    (if r_edit_error env = None then []
                     else [SendMessage cid (Plain (error_msg e))]))"
    using assms s
    by (auto simp add: download_media_def report_error_def Let_def split: option.splits)
  then show ?thesis using s length_error_msg[of e] by (simp add: error_msg_def)
qed

lemma failed_extract:
  "job_body ((smooth_env ''T.mp4'' 5000)\<lparr>r_extract := Inl (ustr ''Video unavailable'')\<rparr>) 7
     (ready_state ''mp4'') =
   (Inl (ustr ''Download process failed: Video unavailable''),
    \<lparr>user_data = [7 \<mapsto> \<lparr>url = ''https://youtu.be/abc'', user_id = 3, chat_id = 7,
                           format_message_id = Some 10, format = Some ''mp4'',
                           progress_message_id = Some 11, title = None\<rparr>],
      download_progress = [(7, \<lparr>status = ''starting'', percent = ''0%'', speed = ''N/A'',
                                 eta = ''N/A'', last_update = 1000\<rparr>)],
      calls = [EditMessageText 7 11 StartingText, ExtractInfo ''https://youtu.be/abc'']\<rparr>)"
  by (simp add: job_eval emit_def ustr_def)

lemma failed_extract_edit:
  "job_body ((smooth_env ''T.mp4'' 5000)\<lparr>r_extract := Inl (ustr ''Video unavailable''),
       r_edit_error := Some (ustr ''Message to edit not found'')\<rparr>) 7
     (ready_state ''mp4'') =
   (Inl (ustr ''Download process failed: Video unavailable''),
    \<lparr>user_data = [7 \<mapsto> \<lparr>url = ''https://youtu.be/abc'', user_id = 3, chat_id = 7,
                           format_message_id = Some 10, format = Some ''mp4'',
                           progress_message_id = Some 11, title = None\<rparr>],
      download_progress = [(7, \<lparr>status = ''starting'', percent = ''0%'', speed = ''N/A'',
                                 eta = ''N/A'', last_update = 1000\<rparr>)],
      calls = [EditMessageText 7 11 StartingText, ExtractInfo ''https://youtu.be/abc'']\<rparr>)"
  by (simp add: job_eval emit_def ustr_def)

text \<open>An unavailable video in chat 7: the error text is edited into the status message;
  when the edit is refused as well, it is also sent as a new message.\<close>

theorem failure_is_reported_witness:
  "calls (snd (download_media
       ((smooth_env ''T.mp4'' 5000)\<lparr>r_extract := Inl (ustr ''Video unavailable'')\<rparr>) 7
       (ready_state ''mp4''))) =
     [EditMessageText 7 11 StartingText, ExtractInfo ''https://youtu.be/abc'',
      EditMessageText 7 11
        (Plain (error_msg (ustr ''Download process failed: Video unavailable'')))]
   \<and> calls (snd (download_media
       ((smooth_env ''T.mp4'' 5000)\<lparr>r_extract := Inl (ustr ''Video unavailable''),
          r_edit_error := Some (ustr ''Message to edit not found'')\<rparr>) 7
       (ready_state ''mp4''))) =
     [EditMessageText 7 11 StartingText, ExtractInfo ''https://youtu.be/abc'',
      EditMessageText 7 11
        (Plain (error_msg (ustr ''Download process failed: Video unavailable''))),
      SendMessage 7
        (Plain (error_msg (ustr ''Download process failed: Video unavailable'')))]"
  using failure_is_reported[OF failed_extract] failure_is_reported[OF failed_extract_edit]
  by (simp add: smooth_env_def)

section \<open>The progress store keeps each key once\<close>

text \<open>The store is empty when the bot starts, and the hook, the handlers and the
  reporter all keep its keys distinct.\<close>

lemma store_ok_empty: "store_ok \<lparr>user_data = Map.empty, download_progress = [], calls = []\<rparr>"
  by (simp add: store_ok_def)

lemma progress_hook_store_ok: "store_ok st \<Longrightarrow> store_ok (progress_hook cid d st)"
  by (simp add: store_ok_def progress_hook_def distinct_update)

lemma hooks_store_ok:
  "store_ok st \<Longrightarrow> store_ok (foldl (\<lambda>s d. progress_hook cid d s) st hs)"
  by (induction hs arbitrary: st) (simp_all add: progress_hook_store_ok)

lemma fetch_stage_store_ok:
  "store_ok st \<Longrightarrow> store_ok (snd (fetch_stage env cid sess f pmid st))"
proof -
  assume a: "store_ok st"
  have "store_ok (foldl (\<lambda>s d. progress_hook cid d s)
          (emit (Download (url sess) f)
            (emit (ExtractInfo (url sess)) (emit (EditMessageText cid pmid StartingText) st)
               \<lparr>user_data := m, download_progress :=
                   AList.map_entry cid (\<lambda>p. p\<lparr>status := ''downloading''\<rparr>) (download_progress st)\<rparr>))
          (r_hooks env))" for m
    using a by (intro hooks_store_ok) (simp add: store_ok_def distinct_map_entry)
  then show ?thesis
    using a by (simp add: fetch_stage_def Let_def store_ok_def split: option.splits sum.splits)
qed

lemma upload_stage_progress:
  "download_progress (snd (upload_stage env cid f fname sz meta ttl st)) = download_progress st"
  by (simp add: upload_stage_def Let_def split: option.splits)

lemma deliver_stage_progress:
  "download_progress (snd (deliver_stage env cid f pmid meta ttl st)) = download_progress st"
proof -
  have "download_progress (snd (case upload_stage env cid f fname sz meta ttl s of
            (Inl e, st2) \<Rightarrow> (Inl e, st2)
          | (Inr u, st2) \<Rightarrow> g st2)) = download_progress s"
    if "\<And>x. download_progress (snd (g x)) = download_progress x" for fname sz s
      and g :: "bot \<Rightarrow> (pystr + unit) \<times> bot"
    using that upload_stage_progress[of env cid f fname sz meta ttl s]
    by (cases "upload_stage env cid f fname sz meta ttl s") (auto split: sum.splits)
  then show ?thesis
    by (simp add: deliver_stage_def Let_def split: option.splits prod.splits)
qed

lemma job_body_store_ok: "store_ok st \<Longrightarrow> store_ok (snd (job_body env cid st))"
proof -
  assume a: "store_ok st"
  have b: "store_ok (st\<lparr>download_progress := AList.update cid v (download_progress st)\<rparr>)" for v
    using a by (simp add: store_ok_def distinct_update)
  have c: "store_ok (snd (case fetch_stage env cid sess f pmid s of
            (Inl e, st2) \<Rightarrow> (Inl e, st2)
          | (Inr (meta, ttl), st2) \<Rightarrow> deliver_stage env cid f pmid meta ttl st2))"
    if "store_ok s" for sess f pmid s
    using fetch_stage_store_ok[OF that, of env cid sess f pmid]
    by (cases "fetch_stage env cid sess f pmid s")
       (auto simp add: store_ok_def deliver_stage_progress split: sum.splits)
  show ?thesis
    using a b c by (simp add: job_body_def Let_def split: option.splits)
qed

lemma report_error_progress:
  "download_progress (snd (report_error env cid e st)) = download_progress st"
  by (simp add: report_error_def Let_def split: option.splits)

lemma download_media_store_ok: "store_ok st \<Longrightarrow> store_ok (snd (download_media env cid st))"
proof -
  assume a: "store_ok st"
  obtain r st1 where j: "job_body env cid st = (r, st1)" by (cases "job_body env cid st")
  have s1: "store_ok st1" using job_body_store_ok[OF a, of env cid] j by simp
  show ?thesis
  proof (cases r)
    case (Inl e)
    obtain out st2 where re: "report_error env cid e st1 = (out, st2)"
      by (cases "report_error env cid e st1")
    have "download_progress st2 = download_progress st1"
      using report_error_progress[of env cid e st1] re by simp
    then show ?thesis using j Inl re s1 by (simp add: download_media_def store_ok_def distinct_delete)
  next
    case (Inr u)
    then show ?thesis using j s1 by (simp add: download_media_def store_ok_def distinct_delete)
  qed
qed

lemma handle_url_store_ok: "store_ok st \<Longrightarrow> store_ok (snd (handle_url r upd st))"
  by (cases r) (simp_all add: handle_url_def Let_def store_ok_def)

lemma button_handler_store_ok: "store_ok st \<Longrightarrow> store_ok (snd (button_handler env query st))"
proof -
  assume a: "store_ok st"
  have "store_ok (snd (download_media (r_job env) cid
           (emit c (emit AnswerQuery st\<lparr>user_data := m\<rparr>)\<lparr>user_data := m'\<rparr>)))" for cid c m m'
    using a by (intro download_media_store_ok) (simp add: store_ok_def)
  then show ?thesis
    using a by (simp add: button_handler_def Let_def store_ok_def split: option.splits sum.splits)
qed

lemma report_one_store_ok: "store_ok st \<Longrightarrow> store_ok (report_one now item st)"
  by (simp add: report_one_def Let_def store_ok_def distinct_delete split: sum.splits option.splits)

lemma progress_updater_store_ok: "store_ok st \<Longrightarrow> store_ok (progress_updater now st)"
proof -
  have "store_ok s \<Longrightarrow> store_ok (foldl (\<lambda>s item. report_one now item s) s items)" for s items
    by (induction items arbitrary: s) (simp_all add: report_one_store_ok)
  then show "store_ok st \<Longrightarrow> store_ok (progress_updater now st)"
    by (simp add: progress_updater_def)
qed

section \<open>Properties of the reporter\<close>

lemma calls_to_append [simp]: "calls_to cid (xs @ ys) = calls_to cid xs @ calls_to cid ys"
  by (simp add: calls_to_def)















end
